theory Spec2Isabelle
  imports Complex_Main
begin

section \<open>Python values, errors and objects\<close>

text \<open>
  The layers are Python classes over a host framework (Keras).  Values that the layers
  store in attributes, put into shape tuples or export in configuration dictionaries are
  dynamically typed; \<open>pyval\<close> is the fragment of Python values the two layers handle.
\<close>

datatype pyval = PyNone | PyBool bool | PyInt int | PyFloat real | PyStr string

text \<open>
  Every \<open>raise\<close>, failed \<open>assert\<close>, missing attribute and out-of-range index of the
  source is a value of \<open>error\<close>; a computation that may raise returns \<open>error + 'a\<close>.
\<close>

datatype error =
    AssertionError
  | NotImplementedError
  | AttributeError string
  | IndexError
  | TypeError
  | ValueError

definition then_do :: "error + 'a \<Rightarrow> ('a \<Rightarrow> error + 'b) \<Rightarrow> error + 'b" where
  "then_do r f = (case r of Inl e \<Rightarrow> Inl e | Inr x \<Rightarrow> f x)"

text \<open>
  An object is its attribute dictionary.  Reading an attribute that was never assigned
  raises \<open>AttributeError\<close>.  A keyword dictionary (\<open>**kwargs\<close>, a configuration mapping) has
  the same shape.
\<close>

type_synonym obj = "string \<rightharpoonup> pyval"

definition getattr :: "obj \<Rightarrow> string \<Rightarrow> error + pyval" where
  "getattr self name = (case self name of None \<Rightarrow> Inl (AttributeError name) | Some v \<Rightarrow> Inr v)"

definition py_add :: "pyval \<Rightarrow> pyval \<Rightarrow> error + pyval" where
  "py_add a b =
     (case (a, b) of
        (PyInt x, PyInt y) \<Rightarrow> Inr (PyInt (x + y))
      | _ \<Rightarrow> Inl TypeError)"

definition py_last :: "'a list \<Rightarrow> error + 'a" where
  "py_last xs = (case xs of [] \<Rightarrow> Inl IndexError | _ \<Rightarrow> Inr (last xs))"

section \<open>SineCosinePositionEmbedding: construction and shape inference\<close>

text \<open>
  \<open>__init__(self, mode='add', output_dim=None, **kwargs)\<close>.  The arguments have the
  annotated types: \<open>mode\<close> a string, \<open>output_dim\<close> an integer or \<open>None\<close>.  The host's
  \<open>Layer.__init__(**kwargs)\<close> is not part of the repository: \<open>Layer_init\<close> stands for it
  and returns the attributes it assigns (or the error it raises).  It runs last, so its
  assignments are laid over the layer's own.
\<close>

definition output_dim_val :: "int option \<Rightarrow> pyval" where
  "output_dim_val od = (case od of None \<Rightarrow> PyNone | Some n \<Rightarrow> PyInt n)"

definition SineCosinePositionEmbedding_init ::
    "(obj \<Rightarrow> error + obj) \<Rightarrow> string \<Rightarrow> int option \<Rightarrow> obj \<Rightarrow> error + obj" where
  "SineCosinePositionEmbedding_init Layer_init mode output_dim kwargs =
     (let self = [''supports_masking'' \<mapsto> PyBool True] in
      if mode \<notin> set [''expand'', ''add'', ''concat''] then Inl AssertionError
      else
        then_do
          (if mode \<in> set [''expand'', ''concat''] then
             (case output_dim of
                None \<Rightarrow> Inl NotImplementedError
              | Some n \<Rightarrow> if n mod 2 \<noteq> 0 then Inl NotImplementedError else Inr ())
           else Inr ())
          (\<lambda>_.
             let self = self(''mode'' \<mapsto> PyStr mode);
                 self = self(''output_dim'' \<mapsto> output_dim_val output_dim)
             in then_do (Layer_init kwargs) (\<lambda>base. Inr (self ++ base))))"

definition SineCosinePositionEmbedding_compute_output_shape ::
    "obj \<Rightarrow> pyval list \<Rightarrow> error + pyval list" where
  "SineCosinePositionEmbedding_compute_output_shape self input_shape =
     then_do (getattr self ''mode'') (\<lambda>mode.
       if mode = PyStr ''expand'' then
         then_do (getattr self ''output_dim'') (\<lambda>od. Inr (input_shape @ [od]))
       else if mode = PyStr ''concat'' then
         then_do (py_last input_shape) (\<lambda>last_dim.
         then_do (getattr self ''output_dim'') (\<lambda>od.
         then_do (py_add last_dim od) (\<lambda>d. Inr (butlast input_shape @ [d]))))
       else Inr input_shape)"

section \<open>Tensors and the host's tensor operations\<close>

text \<open>
  A tensor is its shape and its elements in row-major order.  Element types are not
  modelled: every element is a real number, so \<open>K.cast\<close> is the identity and the host's
  floating-point rounding is left out.  The operations below are the host backend's
  (\<open>keras.backend\<close>, imported as \<open>K\<close>), written out for the argument shapes the layers
  use; where the host rejects its arguments the operation returns \<open>ValueError\<close>.
\<close>

record tensor =
  shape :: "nat list"
  elems :: "real list"

definition tmap :: "(real \<Rightarrow> real) \<Rightarrow> tensor \<Rightarrow> tensor" where
  "tmap f t = \<lparr>shape = shape t, elems = map f (elems t)\<rparr>"

definition K_shape :: "tensor \<Rightarrow> nat list" where
  "K_shape t = shape t"

text \<open>Indexing the shape vector; out of range is the host's index error.\<close>

definition shape_index :: "nat list \<Rightarrow> nat \<Rightarrow> error + nat" where
  "shape_index s i = (if i < length s then Inr (s ! i) else Inl IndexError)"

definition K_arange :: "int \<Rightarrow> int \<Rightarrow> tensor" where
  "K_arange start stop =
     \<lparr>shape = [length [start..stop - 1]], elems = map real_of_int [start..stop - 1]\<rparr>"

definition K_expand_dims :: "tensor \<Rightarrow> int \<Rightarrow> tensor" where
  "K_expand_dims t axis =
     (let k = nat (if axis < 0 then int (length (shape t)) + 1 + axis else axis)
      in \<lparr>shape = take k (shape t) @ [1] @ drop k (shape t), elems = elems t\<rparr>)"

text \<open>\<open>K.tile\<close> of a matrix by two multiples: rows repeated sideways, the block downwards.\<close>

definition K_tile :: "tensor \<Rightarrow> nat list \<Rightarrow> error + tensor" where
  "K_tile t n =
     (case (shape t, n) of
        ([r, c], [a, b]) \<Rightarrow>
          Inr \<lparr>shape = [a * r, b * c],
               elems = concat (replicate a (concat (map
                  (\<lambda>i. concat (replicate b (take c (drop (i * c) (elems t))))) [0..<r])))\<rparr>
      | _ \<Rightarrow> Inl ValueError)"

definition K_cast :: "tensor \<Rightarrow> tensor" where
  "K_cast t = t"

definition K_pow :: "real \<Rightarrow> tensor \<Rightarrow> tensor" where
  "K_pow a t = tmap (\<lambda>x. a powr x) t"

text \<open>
  \<open>K.dot x y\<close> for a matrix \<open>y\<close> of shape \<open>(m, n)\<close> and \<open>x\<close> of shape \<open>(..., m)\<close> with
  at least two dimensions: every row of \<open>x\<close> is multiplied with \<open>y\<close>.
\<close>

definition K_dot :: "tensor \<Rightarrow> tensor \<Rightarrow> error + tensor" where
  "K_dot x y =
     (case shape y of
        [m, n] \<Rightarrow>
          if 2 \<le> length (shape x) \<and> last (shape x) = m then
            Inr \<lparr>shape = butlast (shape x) @ [n],
                 elems = concat (map
                   (\<lambda>r. map (\<lambda>j. sum_list (map
                      (\<lambda>k. elems x ! (r * m + k) * elems y ! (k * n + j)) [0..<m])) [0..<n])
                   [0..<prod_list (butlast (shape x))])\<rparr>
          else Inl ValueError
      | _ \<Rightarrow> Inl ValueError)"

definition K_bias_add :: "tensor \<Rightarrow> tensor \<Rightarrow> error + tensor" where
  "K_bias_add x b =
     (case shape b of
        [n] \<Rightarrow>
          if 2 \<le> length (shape x) \<and> last (shape x) = n then
            Inr \<lparr>shape = shape x,
                 elems = map (\<lambda>i. elems x ! i + elems b ! (i mod n)) [0..<length (elems x)]\<rparr>
          else Inl ValueError
      | _ \<Rightarrow> Inl ValueError)"

text \<open>\<open>K.stack([a, b], axis=-1)\<close>: a new trailing axis of length two.\<close>

definition K_stack :: "tensor \<Rightarrow> tensor \<Rightarrow> error + tensor" where
  "K_stack a b =
     (if shape a = shape b then
        Inr \<lparr>shape = shape a @ [2],
             elems = concat (map (\<lambda>i. [elems a ! i, elems b ! i]) [0..<length (elems a)])\<rparr>
      else Inl ValueError)"

text \<open>
  \<open>K.reshape(t, [-1, s, d])\<close>: the leading dimension is inferred.  The host rejects a
  second negative entry, a zero among the given entries, and a size that does not divide.
\<close>

definition K_reshape :: "tensor \<Rightarrow> nat \<Rightarrow> int \<Rightarrow> error + tensor" where
  "K_reshape t s d =
     (if d < 0 \<or> s * nat d = 0 \<or> length (elems t) mod (s * nat d) \<noteq> 0 then Inl ValueError
      else Inr \<lparr>shape = [length (elems t) div (s * nat d), s, nat d], elems = elems t\<rparr>)"

text \<open>Elementwise addition with the host's broadcasting (shapes aligned at the right).\<close>

fun broadcast_shape :: "nat list \<Rightarrow> nat list \<Rightarrow> nat list option" where
  "broadcast_shape [] ys = Some ys"
| "broadcast_shape xs [] = Some xs"
| "broadcast_shape (x # xs) (y # ys) =
     (if x = y \<or> y = 1 then map_option ((#) x) (broadcast_shape xs ys)
      else if x = 1 then map_option ((#) y) (broadcast_shape xs ys)
      else None)"

fun broadcast_to :: "nat list \<Rightarrow> nat list \<Rightarrow> real list \<Rightarrow> real list" where
  "broadcast_to (n # ns) (m # ms) xs =
     (let k = prod_list ms;
          blocks = concat (map (\<lambda>i. broadcast_to ns ms (take k (drop (i * k) xs))) [0..<m])
      in if m = n then blocks else concat (replicate n blocks))"
| "broadcast_to _ _ xs = xs"

definition tensor_add :: "tensor \<Rightarrow> tensor \<Rightarrow> error + tensor" where
  "tensor_add a b =
     (case broadcast_shape (rev (shape a)) (rev (shape b)) of
        None \<Rightarrow> Inl ValueError
      | Some rs \<Rightarrow>
          let s = rev rs;
              pad = (\<lambda>t. replicate (length s - length (shape t)) 1 @ shape t)
          in Inr \<lparr>shape = s,
                  elems = map2 (+) (broadcast_to s (pad a) (elems a))
                                   (broadcast_to s (pad b) (elems b))\<rparr>)"

text \<open>\<open>K.concatenate([a, b], axis=-1)\<close>: rows of \<open>a\<close> followed by rows of \<open>b\<close>.\<close>

definition K_concatenate :: "tensor \<Rightarrow> tensor \<Rightarrow> error + tensor" where
  "K_concatenate a b =
     (if shape a \<noteq> [] \<and> shape b \<noteq> [] \<and> butlast (shape a) = butlast (shape b) then
        let ma = last (shape a); mb = last (shape b)
        in Inr \<lparr>shape = butlast (shape a) @ [ma + mb],
                elems = concat (map
                  (\<lambda>r. take ma (drop (r * ma) (elems a)) @ take mb (drop (r * mb) (elems b)))
                  [0..<prod_list (butlast (shape a))])\<rparr>
      else Inl ValueError)"

section \<open>SineCosinePositionEmbedding: forward evaluation\<close>

definition as_int :: "pyval \<Rightarrow> error + int" where
  "as_int v = (case v of PyInt n \<Rightarrow> Inr n | _ \<Rightarrow> Inl TypeError)"

text \<open>
  Lines 215 to 236 of \<open>call\<close>: the encoding of the position tensor \<open>pos_input\<close> with width
  \<open>output_dim\<close>, reshaped to \<open>[-1, seq_len, output_dim]\<close>.
\<close>

definition sincos_embed :: "tensor \<Rightarrow> nat \<Rightarrow> int \<Rightarrow> error + tensor" where
  "sincos_embed pos_input0 seq_len output_dim =
     (let pos_input = K_cast pos_input0;
          evens = tmap (\<lambda>x. x * 2) (K_arange 0 (output_dim div 2));
          odds = tmap (\<lambda>x. x * 2 + 1) (K_arange 0 (output_dim div 2))
      in
      then_do (K_dot (K_expand_dims pos_input (- 1))
                 (K_expand_dims (tmap (\<lambda>x. 1 / x)
                    (K_pow 10000 (tmap (\<lambda>x. x / real_of_int output_dim) (K_cast evens)))) 0))
        (\<lambda>sin_arg.
      let sim_embed = tmap sin sin_arg in
      then_do (K_dot (K_expand_dims pos_input (- 1))
                 (K_expand_dims (tmap (\<lambda>x. 1 / x)
                    (K_pow 10000 (tmap (\<lambda>x. x / real_of_int output_dim)
                       (K_cast (tmap (\<lambda>x. x - 1) odds))))) 0))
        (\<lambda>cos_arg.
      let cos_embed = tmap cos cos_arg in
      then_do (K_stack sim_embed cos_embed) (\<lambda>embed.
      K_reshape embed seq_len output_dim))))"

definition SineCosinePositionEmbedding_call :: "obj \<Rightarrow> tensor \<Rightarrow> error + tensor" where
  "SineCosinePositionEmbedding_call self inputs =
     (let input_shape = K_shape inputs in
      then_do (shape_index input_shape 0) (\<lambda>batch_size.
      then_do (shape_index input_shape 1) (\<lambda>seq_len.
      then_do (getattr self ''mode'') (\<lambda>mode0.
      then_do (if mode0 = PyStr ''add''
               then then_do (shape_index input_shape 2) (\<lambda>d. Inr (PyInt (int d)))
               else getattr self ''output_dim'') (\<lambda>output_dim0.
      then_do (getattr self ''model'') (\<lambda>model.
      then_do (if model \<in> set [PyStr ''add'', PyStr ''concat'']
               then K_tile (K_expand_dims (K_arange 0 (int seq_len)) 0) [batch_size, 1]
               else Inr inputs) (\<lambda>pos_input.
      then_do (as_int output_dim0) (\<lambda>output_dim.
      then_do (sincos_embed pos_input seq_len output_dim) (\<lambda>output.
      then_do (getattr self ''mode'') (\<lambda>mode1.
      if mode1 = PyStr ''add'' then tensor_add output inputs
      else then_do (getattr self ''mode'') (\<lambda>mode2.
        if mode2 = PyStr ''concat'' then K_concatenate inputs output
        else Inr output)))))))))))"

text \<open>
  Constructing a layer and applying it to a tensor:
  \<open>SineCosinePositionEmbedding(mode, output_dim, **kwargs)(inputs)\<close>.
\<close>

definition SineCosinePositionEmbedding_apply ::
    "(obj \<Rightarrow> error + obj) \<Rightarrow> string \<Rightarrow> int option \<Rightarrow> obj \<Rightarrow> tensor \<Rightarrow> error + tensor" where
  "SineCosinePositionEmbedding_apply Layer_init mode output_dim kwargs inputs =
     then_do (SineCosinePositionEmbedding_init Layer_init mode output_dim kwargs)
       (\<lambda>self. SineCosinePositionEmbedding_call self inputs)"

definition no_kwargs :: obj where
  "no_kwargs = Map.empty"

section \<open>Function objects\<close>

text \<open>
  A Python function used as an activation: its \<open>__name__\<close> and what it computes on a
  tensor.  The constructor's \<open>activation\<close> argument is an identifier (a name, or \<open>None\<close>)
  or such a callable.
\<close>

record pyfun =
  fn_name :: string
  fn_apply :: "tensor \<Rightarrow> tensor"

datatype activation_arg = Identifier pyval | Callable pyfun

section \<open>gelu\<close>

definition gelu :: "real \<Rightarrow> real" where
  "gelu x = 0.5 * x * (1.0 + tanh (sqrt (2.0 / pi) * (x + 0.044715 * x ^ 3)))"

text \<open>
  The module's \<open>gelu\<close> as a callable activation: on a tensor, \<open>K.tanh\<close> and the arithmetic
  act on every element.
\<close>

definition gelu_fn :: pyfun where
  "gelu_fn = \<lparr>fn_name = ''gelu'', fn_apply = tmap gelu\<rparr>"

section \<open>FeedForward\<close>

text \<open>
  The host registries \<open>keras.activations\<close>, \<open>keras.initializers\<close>, \<open>keras.regularizers\<close>
  and \<open>keras.constraints\<close>, and the base class \<open>Layer\<close>, are not part of the repository;
  a value of \<open>'o keras\<close> holds the functions of the host that the layer calls.  \<open>'o\<close> is
  the type of the host's initializer, regularizer and constraint objects; an identifier
  and a serialized object are Python values; a resolved activation is a function object,
  or \<open>None\<close>.  A registry's \<open>get\<close> may raise, as the host does for an identifier it
  does not know.
\<close>

record 'o keras =
  Layer_init :: "obj \<Rightarrow> error + obj"
  Layer_get_config :: "obj \<Rightarrow> obj"
  activations_get :: "activation_arg \<Rightarrow> error + pyfun option"
  activations_serialize :: "pyfun option \<Rightarrow> pyval"
  initializers_get :: "pyval \<Rightarrow> error + 'o"
  initializers_serialize :: "'o \<Rightarrow> pyval"
  regularizers_get :: "pyval \<Rightarrow> error + 'o"
  regularizers_serialize :: "'o \<Rightarrow> pyval"
  constraints_get :: "pyval \<Rightarrow> error + 'o"
  constraints_serialize :: "'o \<Rightarrow> pyval"

text \<open>
  A weight as \<open>add_weight\<close> allocates it.  Its name is the value of \<open>self.name\<close> and the
  suffix the layer formats after it.  The current value of a weight is held by the host
  and changed by training; \<open>call\<close> reads it through a valuation of the weights.
\<close>

record 'o weight =
  w_shape :: "nat list"
  w_initializer :: 'o
  w_regularizer :: 'o
  w_constraint :: 'o
  w_name :: "pyval \<times> string"

definition add_weight ::
    "int list \<Rightarrow> 'o \<Rightarrow> 'o \<Rightarrow> 'o \<Rightarrow> pyval \<times> string \<Rightarrow> error + 'o weight" where
  "add_weight shp ini reg con nm =
     (if list_all (\<lambda>d. 0 \<le> d) shp
      then Inr \<lparr>w_shape = map nat shp, w_initializer = ini, w_regularizer = reg,
                w_constraint = con, w_name = nm\<rparr>
      else Inl ValueError)"

definition weight_tensor :: "('o weight \<Rightarrow> real list) \<Rightarrow> 'o weight \<Rightarrow> tensor" where
  "weight_tensor values w = \<lparr>shape = w_shape w, elems = values w\<rparr>"

text \<open>
  The attributes \<open>W1\<close>, \<open>W2\<close>, \<open>b1\<close>, \<open>b2\<close> and \<open>dropout_layer\<close> exist only once \<open>build\<close>
  has assigned them: \<open>None\<close> is the absent attribute.  \<open>dropout_layer\<close> holds the rate of
  the host's \<open>Dropout\<close> layer.
\<close>

record 'o FeedForward =
  layer_attrs :: obj
  supports_masking :: bool
  units :: int
  activation :: "pyfun option"
  kernel_initializer :: 'o
  kernel_regularizer :: 'o
  kernel_constraint :: 'o
  bias_initializer :: 'o
  bias_regularizer :: 'o
  bias_constraint :: 'o
  use_bias :: bool
  dropout_rate :: real
  W1 :: "'o weight option"
  W2 :: "'o weight option"
  b1 :: "'o weight option"
  b2 :: "'o weight option"
  dropout_layer :: "real option"
  built :: bool

definition FeedForward_init ::
    "'o keras \<Rightarrow> int \<Rightarrow> activation_arg \<Rightarrow> pyval \<Rightarrow> pyval \<Rightarrow> pyval \<Rightarrow> pyval \<Rightarrow> pyval \<Rightarrow>
       pyval \<Rightarrow> bool \<Rightarrow> real \<Rightarrow> obj \<Rightarrow> error + 'o FeedForward" where
  "FeedForward_init K units0 activation0 kernel_initializer0 kernel_regularizer0
       kernel_constraint0 bias_initializer0 bias_regularizer0 bias_constraint0
       use_bias0 dropout_rate0 kwargs =
     then_do (Layer_init K kwargs) (\<lambda>base.
     then_do (activations_get K activation0) (\<lambda>act.
     then_do (initializers_get K kernel_initializer0) (\<lambda>k_init.
     then_do (regularizers_get K kernel_regularizer0) (\<lambda>k_reg.
     then_do (constraints_get K kernel_constraint0) (\<lambda>k_con.
     then_do (initializers_get K bias_initializer0) (\<lambda>b_init.
     then_do (regularizers_get K bias_regularizer0) (\<lambda>b_reg.
     then_do (constraints_get K bias_constraint0) (\<lambda>b_con.
       Inr \<lparr>layer_attrs = base,
            supports_masking = True,
            units = units0,
            activation = act,
            kernel_initializer = k_init,
            kernel_regularizer = k_reg,
            kernel_constraint = k_con,
            bias_initializer = b_init,
            bias_regularizer = b_reg,
            bias_constraint = b_con,
            use_bias = use_bias0,
            dropout_rate = dropout_rate0,
            W1 = None, W2 = None, b1 = None, b2 = None,
            dropout_layer = None, built = False\<rparr>))))))))"

definition FeedForward_get_config :: "'o keras \<Rightarrow> 'o FeedForward \<Rightarrow> obj" where
  "FeedForward_get_config K self =
     (let config = [
            ''units'' \<mapsto> PyInt (units self),
            ''activation'' \<mapsto> activations_serialize K (activation self),
            ''kernel_initializer'' \<mapsto> initializers_serialize K (kernel_initializer self),
            ''kernel_regularizer'' \<mapsto> regularizers_serialize K (kernel_regularizer self),
            ''kernel_constraint'' \<mapsto> constraints_serialize K (kernel_constraint self),
            ''bias_initializer'' \<mapsto> initializers_serialize K (bias_initializer self),
            ''bias_regularizer'' \<mapsto> regularizers_serialize K (bias_regularizer self),
            ''bias_constraint'' \<mapsto> constraints_serialize K (bias_constraint self),
            ''use_bias'' \<mapsto> PyBool (use_bias self),
            ''dropout_rate'' \<mapsto> PyFloat (dropout_rate self)];
          base_config = Layer_get_config K (layer_attrs self)
      in base_config ++ config)"

text \<open>\<open>int(v)\<close> of a shape entry: an integer, or \<open>None\<close> for an unknown dimension.\<close>

definition py_int :: "pyval \<Rightarrow> error + int" where
  "py_int v = (case v of PyInt n \<Rightarrow> Inr n | _ \<Rightarrow> Inl TypeError)"

definition FeedForward_build :: "'o FeedForward \<Rightarrow> pyval list \<Rightarrow> error + 'o FeedForward" where
  "FeedForward_build self input_shape =
     then_do (py_last input_shape) (\<lambda>d.
     then_do (py_int d) (\<lambda>feature_dim.
     then_do (getattr (layer_attrs self) ''name'') (\<lambda>name1.
     then_do (add_weight [feature_dim, units self] (kernel_initializer self)
                (kernel_regularizer self) (kernel_constraint self) (name1, ''_W1'')) (\<lambda>w1.
     let self = self\<lparr>W1 := Some w1\<rparr> in
     then_do (getattr (layer_attrs self) ''name'') (\<lambda>name2.
     then_do (add_weight [units self, feature_dim] (kernel_initializer self)
                (kernel_regularizer self) (kernel_constraint self) (name2, ''_W2'')) (\<lambda>w2.
     let self = self\<lparr>W2 := Some w2\<rparr> in
     then_do
       (if use_bias self then
          then_do (getattr (layer_attrs self) ''name'') (\<lambda>name3.
          then_do (add_weight [units self] (bias_initializer self)
                     (bias_regularizer self) (bias_constraint self) (name3, ''_b1'')) (\<lambda>w3.
          let self = self\<lparr>b1 := Some w3\<rparr> in
          then_do (getattr (layer_attrs self) ''name'') (\<lambda>name4.
          then_do (add_weight [feature_dim] (bias_initializer self)
                     (bias_regularizer self) (bias_constraint self) (name4, ''_b2'')) (\<lambda>w4.
          Inr (self\<lparr>b2 := Some w4\<rparr>)))))
        else Inr self) (\<lambda>self.
     let self = (if dropout_rate self > 0.0
                 then self\<lparr>dropout_layer := Some (dropout_rate self)\<rparr> else self)
     in Inr (self\<lparr>built := True\<rparr>))))))))"

text \<open>
  The host's \<open>Dropout\<close> layer with rate \<open>rate\<close>: the identity outside training; in training
  an element is kept and scaled by \<open>1 / (1 - rate)\<close>, or zeroed, as the sampled mask
  \<open>keep\<close> says.  The mask is the layer's randomness, made an argument.
\<close>

definition Dropout_call :: "real \<Rightarrow> bool \<Rightarrow> (nat \<Rightarrow> bool) \<Rightarrow> tensor \<Rightarrow> tensor" where
  "Dropout_call rate training keep x =
     (if training then
        \<lparr>shape = shape x,
         elems = map (\<lambda>i. if keep i then elems x ! i / (1 - rate) else 0)
                   [0..<length (elems x)]\<rparr>
      else x)"

definition get_weight ::
    "('o weight \<Rightarrow> real list) \<Rightarrow> 'o weight option \<Rightarrow> string \<Rightarrow> error + tensor" where
  "get_weight values w name =
     (case w of None \<Rightarrow> Inl (AttributeError name) | Some v \<Rightarrow> Inr (weight_tensor values v))"

text \<open>
  \<open>call(self, inputs, mask=None, training=None)\<close>.  \<open>values\<close> is the current value of
  every weight, \<open>training\<close> the phase the host runs the nested \<open>Dropout\<close> layer in and
  \<open>keep\<close> the mask that layer samples.
\<close>

definition FeedForward_call ::
    "'o FeedForward \<Rightarrow> ('o weight \<Rightarrow> real list) \<Rightarrow> bool \<Rightarrow> (nat \<Rightarrow> bool) \<Rightarrow> tensor
       \<Rightarrow> error + tensor" where
  "FeedForward_call self values training keep inputs =
     then_do (get_weight values (W1 self) ''W1'') (\<lambda>w1.
     then_do (K_dot inputs w1) (\<lambda>hidden.
     then_do (if use_bias self
              then then_do (get_weight values (b1 self) ''b1'') (\<lambda>b. K_bias_add hidden b)
              else Inr hidden) (\<lambda>hidden.
     let hidden = (case activation self of Some f \<Rightarrow> fn_apply f hidden | None \<Rightarrow> hidden) in
     then_do (if dropout_rate self > 0.0
              then (case dropout_layer self of
                      None \<Rightarrow> Inl (AttributeError ''dropout_layer'')
                    | Some rate \<Rightarrow> Inr (Dropout_call rate training keep hidden))
              else Inr hidden) (\<lambda>hidden.
     then_do (get_weight values (W2 self) ''W2'') (\<lambda>w2.
     then_do (K_dot hidden w2) (\<lambda>output.
     if use_bias self
     then then_do (get_weight values (b2 self) ''b2'') (\<lambda>b. K_bias_add output b)
     else Inr output))))))"

definition FeedForward_compute_mask :: "'o FeedForward \<Rightarrow> tensor \<Rightarrow> 'm \<Rightarrow> 'm" where
  "FeedForward_compute_mask self inputs mask_arg = mask_arg"

definition FeedForward_compute_output_shape :: "'o FeedForward \<Rightarrow> pyval list \<Rightarrow> pyval list" where
  "FeedForward_compute_output_shape self input_shape = input_shape"

text \<open>
  The forward computation in the words of the specification: a linear map, an optional
  bias add, an optional nonlinearity, an optional dropout, a linear map and an optional
  bias add, in this order, with one switch for each of the four optional steps.
\<close>

definition linear_map ::
    "('o weight \<Rightarrow> real list) \<Rightarrow> 'o weight option \<Rightarrow> string \<Rightarrow> tensor \<Rightarrow> error + tensor" where
  "linear_map values w name x = then_do (get_weight values w name) (\<lambda>wt. K_dot x wt)"

definition bias_add_step ::
    "bool \<Rightarrow> ('o weight \<Rightarrow> real list) \<Rightarrow> 'o weight option \<Rightarrow> string \<Rightarrow> tensor
       \<Rightarrow> error + tensor" where
  "bias_add_step on values w name x =
     (if on then then_do (get_weight values w name) (\<lambda>b. K_bias_add x b) else Inr x)"

definition activation_step :: "bool \<Rightarrow> 'o FeedForward \<Rightarrow> tensor \<Rightarrow> error + tensor" where
  "activation_step on self x =
     Inr (if on then (case activation self of Some f \<Rightarrow> fn_apply f x | None \<Rightarrow> x) else x)"

definition dropout_step ::
    "bool \<Rightarrow> 'o FeedForward \<Rightarrow> bool \<Rightarrow> (nat \<Rightarrow> bool) \<Rightarrow> tensor \<Rightarrow> error + tensor" where
  "dropout_step on self training keep x =
     (if on then
        (case dropout_layer self of
           None \<Rightarrow> Inl (AttributeError ''dropout_layer'')
         | Some rate \<Rightarrow> Inr (Dropout_call rate training keep x))
      else Inr x)"

definition FeedForward_steps ::
    "bool \<Rightarrow> bool \<Rightarrow> bool \<Rightarrow> bool \<Rightarrow> 'o FeedForward \<Rightarrow> ('o weight \<Rightarrow> real list) \<Rightarrow> bool \<Rightarrow>
       (nat \<Rightarrow> bool) \<Rightarrow> tensor \<Rightarrow> error + tensor" where
  "FeedForward_steps bias1 act dropout bias2 self values training keep x =
     then_do (linear_map values (W1 self) ''W1'' x) (\<lambda>h.
     then_do (bias_add_step bias1 values (b1 self) ''b1'' h) (\<lambda>h.
     then_do (activation_step act self h) (\<lambda>h.
     then_do (dropout_step dropout self training keep h) (\<lambda>h.
     then_do (linear_map values (W2 self) ''W2'' h) (\<lambda>out.
     bias_add_step bias2 values (b2 self) ''b2'' out)))))"

text \<open>
  \<open>output = Dense2(Dropout(Activation(Dense1(input))))\<close>, each stage switched by the
  layer's configuration.
\<close>

definition Dense1 ::
    "'o FeedForward \<Rightarrow> ('o weight \<Rightarrow> real list) \<Rightarrow> tensor \<Rightarrow> error + tensor" where
  "Dense1 self values x =
     then_do (linear_map values (W1 self) ''W1'' x)
       (bias_add_step (use_bias self) values (b1 self) ''b1'')"

definition Activation :: "'o FeedForward \<Rightarrow> tensor \<Rightarrow> error + tensor" where
  "Activation self x = activation_step (activation self \<noteq> None) self x"

definition Dropout :: "'o FeedForward \<Rightarrow> bool \<Rightarrow> (nat \<Rightarrow> bool) \<Rightarrow> tensor \<Rightarrow> error + tensor" where
  "Dropout self training keep x = dropout_step (0 < dropout_rate self) self training keep x"

definition Dense2 ::
    "'o FeedForward \<Rightarrow> ('o weight \<Rightarrow> real list) \<Rightarrow> tensor \<Rightarrow> error + tensor" where
  "Dense2 self values x =
     then_do (linear_map values (W2 self) ''W2'' x)
       (bias_add_step (use_bias self) values (b2 self) ''b2'')"

text \<open>
  Which of the four optional steps (bias add with \<open>b1\<close>, activation, dropout, bias add
  with \<open>b2\<close>) a configuration switches on: the conditions of lines 121, 123, 125 and 128.
\<close>

definition FeedForward_toggles :: "'o FeedForward \<Rightarrow> bool \<times> bool \<times> bool \<times> bool" where
  "FeedForward_toggles self =
     (use_bias self, activation self \<noteq> None, dropout_rate self > 0.0, use_bias self)"

section \<open>Configuration export and reconstruction\<close>

text \<open>
  \<open>get_config\<close> of the position embedding: \<open>dict(base_config, **config)\<close>, the host's
  entries overridden by the layer's own.  \<open>host_get_config\<close> stands for the host's
  \<open>Layer.get_config\<close>.
\<close>

definition SineCosinePositionEmbedding_get_config :: "(obj \<Rightarrow> obj) \<Rightarrow> obj \<Rightarrow> error + obj" where
  "SineCosinePositionEmbedding_get_config host_get_config self =
     then_do (getattr self ''mode'') (\<lambda>mode.
     then_do (getattr self ''output_dim'') (\<lambda>output_dim.
     let config = [''mode'' \<mapsto> mode, ''output_dim'' \<mapsto> output_dim];
         base_config = host_get_config self
     in Inr (base_config ++ config)))"

definition SineCosinePositionEmbedding_compute_mask :: "obj \<Rightarrow> tensor \<Rightarrow> 'm \<Rightarrow> 'm" where
  "SineCosinePositionEmbedding_compute_mask self inputs mask_arg = mask_arg"

text \<open>
  Reconstruction is the host's \<open>from_config\<close>, which calls the class with the mapping as
  keyword arguments: a parameter takes its entry or, without one, its default, and the
  remaining entries are \<open>**kwargs\<close>.  The constructors take arguments of their annotated
  types; an entry of another type is reported as \<open>TypeError\<close>.
\<close>

definition as_bool :: "pyval \<Rightarrow> error + bool" where
  "as_bool v = (case v of PyBool b \<Rightarrow> Inr b | _ \<Rightarrow> Inl TypeError)"

definition as_float :: "pyval \<Rightarrow> error + real" where
  "as_float v =
     (case v of PyFloat r \<Rightarrow> Inr r | PyInt n \<Rightarrow> Inr (real_of_int n) | _ \<Rightarrow> Inl TypeError)"

definition as_str :: "pyval \<Rightarrow> error + string" where
  "as_str v = (case v of PyStr s \<Rightarrow> Inr s | _ \<Rightarrow> Inl TypeError)"

definition as_optional_int :: "pyval \<Rightarrow> error + int option" where
  "as_optional_int v =
     (case v of PyNone \<Rightarrow> Inr None | PyInt n \<Rightarrow> Inr (Some n) | _ \<Rightarrow> Inl TypeError)"

definition kwarg :: "obj \<Rightarrow> string \<Rightarrow> pyval \<Rightarrow> pyval" where
  "kwarg config name dflt = (case config name of None \<Rightarrow> dflt | Some v \<Rightarrow> v)"

definition SineCosinePositionEmbedding_params :: "string list" where
  "SineCosinePositionEmbedding_params = [''mode'', ''output_dim'']"

definition SineCosinePositionEmbedding_from_config ::
    "(obj \<Rightarrow> error + obj) \<Rightarrow> obj \<Rightarrow> error + obj" where
  "SineCosinePositionEmbedding_from_config host_init config =
     then_do (as_str (kwarg config ''mode'' (PyStr ''add''))) (\<lambda>mode.
     then_do (as_optional_int (kwarg config ''output_dim'' PyNone)) (\<lambda>output_dim.
     SineCosinePositionEmbedding_init host_init mode output_dim
       (config |` (- set SineCosinePositionEmbedding_params))))"

definition FeedForward_params :: "string list" where
  "FeedForward_params =
     [''units'', ''activation'', ''kernel_initializer'', ''kernel_regularizer'',
      ''kernel_constraint'', ''bias_initializer'', ''bias_regularizer'', ''bias_constraint'',
      ''use_bias'', ''dropout_rate'']"

definition FeedForward_from_config :: "'o keras \<Rightarrow> obj \<Rightarrow> error + 'o FeedForward" where
  "FeedForward_from_config K config =
     (case config ''units'' of
        None \<Rightarrow> Inl TypeError
      | Some u \<Rightarrow>
          then_do (as_int u) (\<lambda>units0.
          then_do (as_bool (kwarg config ''use_bias'' (PyBool True))) (\<lambda>use_bias0.
          then_do (as_float (kwarg config ''dropout_rate'' (PyFloat 0.0))) (\<lambda>dropout_rate0.
          FeedForward_init K units0
            (Identifier (kwarg config ''activation'' (PyStr ''relu'')))
            (kwarg config ''kernel_initializer'' (PyStr ''glorot_normal''))
            (kwarg config ''kernel_regularizer'' PyNone)
            (kwarg config ''kernel_constraint'' PyNone)
            (kwarg config ''bias_initializer'' (PyStr ''zeros''))
            (kwarg config ''bias_regularizer'' PyNone)
            (kwarg config ''bias_constraint'' PyNone)
            use_bias0 dropout_rate0
            (config |` (- set FeedForward_params))))))"

text \<open>
  The host resolves the serialized form of each of a layer's seven registry objects back
  to that object.
\<close>

definition resolves_back :: "'o keras \<Rightarrow> 'o FeedForward \<Rightarrow> bool" where
  "resolves_back K self =
     (activations_get K (Identifier (activations_serialize K (activation self))) =
        Inr (activation self) \<and>
      initializers_get K (initializers_serialize K (kernel_initializer self)) =
        Inr (kernel_initializer self) \<and>
      regularizers_get K (regularizers_serialize K (kernel_regularizer self)) =
        Inr (kernel_regularizer self) \<and>
      constraints_get K (constraints_serialize K (kernel_constraint self)) =
        Inr (kernel_constraint self) \<and>
      initializers_get K (initializers_serialize K (bias_initializer self)) =
        Inr (bias_initializer self) \<and>
      regularizers_get K (regularizers_serialize K (bias_regularizer self)) =
        Inr (bias_regularizer self) \<and>
      constraints_get K (constraints_serialize K (bias_constraint self)) =
        Inr (bias_constraint self))"

section \<open>A minimal host\<close>

text \<open>
  The concrete host of the examples.  Its base layer has one attribute, \<open>name\<close>.  Its
  activation registry knows \<open>relu\<close> and \<open>linear\<close> by name, resolves \<open>None\<close> to \<open>None\<close>,
  returns a callable as it is and raises for any other identifier; a function is
  serialized as its name.  Its initializers, regularizers and constraints are their own
  identifiers.
\<close>

definition minimal_Layer_init :: "obj \<Rightarrow> error + obj" where
  "minimal_Layer_init kwargs =
     Inr [''name'' \<mapsto> (case kwargs ''name'' of Some v \<Rightarrow> v | None \<Rightarrow> PyStr ''layer'')]"

definition minimal_Layer_get_config :: "obj \<Rightarrow> obj" where
  "minimal_Layer_get_config self =
     [''name'' \<mapsto> (case self ''name'' of Some v \<Rightarrow> v | None \<Rightarrow> PyStr ''layer'')]"

definition relu :: "tensor \<Rightarrow> tensor" where
  "relu = tmap (max 0)"

definition relu_fn :: pyfun where
  "relu_fn = \<lparr>fn_name = ''relu'', fn_apply = relu\<rparr>"

definition linear_fn :: pyfun where
  "linear_fn = \<lparr>fn_name = ''linear'', fn_apply = (\<lambda>x. x)\<rparr>"

definition minimal_activations_get :: "activation_arg \<Rightarrow> error + pyfun option" where
  "minimal_activations_get a =
     (case a of
        Callable f \<Rightarrow> Inr (Some f)
      | Identifier v \<Rightarrow>
          if v = PyNone then Inr None
          else if v = PyStr ''relu'' then Inr (Some relu_fn)
          else if v = PyStr ''linear'' then Inr (Some linear_fn)
          else Inl ValueError)"

definition minimal_activations_serialize :: "pyfun option \<Rightarrow> pyval" where
  "minimal_activations_serialize a = (case a of None \<Rightarrow> PyNone | Some f \<Rightarrow> PyStr (fn_name f))"

definition minimal_keras :: "pyval keras" where
  "minimal_keras =
     \<lparr>Layer_init = minimal_Layer_init,
      Layer_get_config = minimal_Layer_get_config,
      activations_get = minimal_activations_get,
      activations_serialize = minimal_activations_serialize,
      initializers_get = Inr,
      initializers_serialize = (\<lambda>v. v),
      regularizers_get = Inr,
      regularizers_serialize = (\<lambda>v. v),
      constraints_get = Inr,
      constraints_serialize = (\<lambda>v. v)\<rparr>"

text \<open>
  A layer of the minimal host with three hidden units, \<open>relu\<close> and bias, as \<open>__init__\<close>
  returns it, and the same layer built for inputs with two features; a valuation that
  sets every weight element to one number.
\<close>

definition example_FeedForward :: "pyval FeedForward" where
  "example_FeedForward =
     projr (FeedForward_init minimal_keras 3 (Identifier (PyStr ''relu''))
       (PyStr ''glorot_normal'') PyNone PyNone (PyStr ''zeros'') PyNone PyNone True 0.0
       no_kwargs)"

definition example_built :: "pyval FeedForward" where
  "example_built = projr (FeedForward_build example_FeedForward [PyNone, PyInt 2])"

definition constant_values :: "real \<Rightarrow> 'o weight \<Rightarrow> real list" where
  "constant_values c w = replicate (prod_list (w_shape w)) c"

text \<open>
  A layer with no argument left at its default: five hidden units, the host's \<open>linear\<close>
  function passed as a callable, named initializers, regularizers and constraints, no
  bias, a dropout rate of a quarter and the name \<open>ffn\<close>.
\<close>

definition custom_kwargs :: obj where
  "custom_kwargs = [''name'' \<mapsto> PyStr ''ffn'']"

definition example_custom :: "pyval FeedForward" where
  "example_custom =
     projr (FeedForward_init minimal_keras 5 (Callable linear_fn)
       (PyStr ''he_normal'') (PyStr ''l2'') (PyStr ''max_norm'') (PyStr ''ones'') (PyStr ''l1'')
       (PyStr ''non_neg'') False 0.25 custom_kwargs)"

text \<open>A layer given the module's \<open>gelu\<close> as its activation: \<open>FeedForward(3, activation=gelu)\<close>.\<close>

definition gelu_layer :: "pyval FeedForward" where
  "gelu_layer =
     projr (FeedForward_init minimal_keras 3 (Callable gelu_fn)
       (PyStr ''glorot_normal'') PyNone PyNone (PyStr ''zeros'') PyNone PyNone True 0.0
       no_kwargs)"

text \<open>A position embedding of the minimal host, in mode \<open>concat\<close> with eight channels.\<close>

definition example_position :: obj where
  "example_position =
     [''supports_masking'' \<mapsto> PyBool True, ''mode'' \<mapsto> PyStr ''concat'',
      ''output_dim'' \<mapsto> PyInt 8, ''name'' \<mapsto> PyStr ''layer'']"

section \<open>Basic facts\<close>

lemma then_do_simps [simp]:
  "then_do (Inl e) f = Inl e"
  "then_do (Inr x) f = f x"
  by (simp_all add: then_do_def)

lemma then_do_Inr [simp]: "then_do r Inr = r"
  by (cases r) simp_all

lemma py_last_snoc [simp]: "py_last (s @ [x]) = Inr x"
proof (cases "s @ [x]")
  case Nil
  then show ?thesis by simp
next
  case (Cons a as)
  have "last (s @ [x]) = x" by simp
  with Cons show ?thesis by (simp add: py_last_def)
qed

section \<open>SineCosinePositionEmbedding: construction\<close>

lemma init_Inr:
  assumes "SineCosinePositionEmbedding_init L mode od kw = Inr self"
  shows "\<exists>base. L kw = Inr base \<and>
           self = [''supports_masking'' \<mapsto> PyBool True, ''mode'' \<mapsto> PyStr mode,
                   ''output_dim'' \<mapsto> output_dim_val od] ++ base \<and>
           mode \<in> {''expand'', ''add'', ''concat''} \<and>
           (mode \<noteq> ''add'' \<longrightarrow> (\<exists>n. od = Some n \<and> n mod 2 = 0))"
  using assms
  by (auto simp: SineCosinePositionEmbedding_init_def then_do_def Let_def
      split: if_splits option.splits sum.splits)

lemma init_attrs:
  assumes "SineCosinePositionEmbedding_init L mode od kw = Inr self"
    and "L kw = Inr base"
  shows "base ''mode'' = None \<Longrightarrow> self ''mode'' = Some (PyStr mode)"
    and "base ''output_dim'' = None \<Longrightarrow> self ''output_dim'' = Some (output_dim_val od)"
    and "base ''model'' = None \<Longrightarrow> self ''model'' = None"
  using init_Inr [OF assms(1)] assms(2) by (auto simp: map_add_def)

lemma init_examples:
  "SineCosinePositionEmbedding_init Inr ''expand'' (Some 8) no_kwargs =
     Inr [''supports_masking'' \<mapsto> PyBool True, ''mode'' \<mapsto> PyStr ''expand'',
          ''output_dim'' \<mapsto> PyInt 8]"
  "SineCosinePositionEmbedding_init Inr ''concat'' (Some 8) no_kwargs =
     Inr [''supports_masking'' \<mapsto> PyBool True, ''mode'' \<mapsto> PyStr ''concat'',
          ''output_dim'' \<mapsto> PyInt 8]"
  "SineCosinePositionEmbedding_init Inr ''add'' None no_kwargs =
     Inr [''supports_masking'' \<mapsto> PyBool True, ''mode'' \<mapsto> PyStr ''add'',
          ''output_dim'' \<mapsto> PyNone]"
  by (simp_all add: SineCosinePositionEmbedding_init_def no_kwargs_def output_dim_val_def)

lemma no_kwargs_None [simp]: "no_kwargs k = None"
  by (simp add: no_kwargs_def)

text \<open>
  C4.  Construction raises exactly when the mode is not one of \<open>expand\<close>, \<open>add\<close>, \<open>concat\<close>
  (the assertion), or the mode is \<open>expand\<close> or \<open>concat\<close> and \<open>output_dim\<close> is \<open>None\<close> or odd
  (\<open>NotImplementedError\<close>).  These raises come before the host's initializer runs, so
  they do not depend on it, and an error carries no object.  For keyword arguments the
  host accepts, there is no other failure, and mode \<open>add\<close> succeeds for every
  \<open>output_dim\<close>, \<open>None\<close> and odd integers included.
\<close>

theorem SineCosinePositionEmbedding_init_fails_iff:
  "(mode \<notin> {''expand'', ''add'', ''concat''} \<longrightarrow>
      SineCosinePositionEmbedding_init L mode od kw = Inl AssertionError) \<and>
   (mode \<in> {''expand'', ''concat''} \<and> od = None \<longrightarrow>
      SineCosinePositionEmbedding_init L mode od kw = Inl NotImplementedError) \<and>
   (mode \<in> {''expand'', ''concat''} \<and> od = Some n \<and> n mod 2 \<noteq> 0 \<longrightarrow>
      SineCosinePositionEmbedding_init L mode od kw = Inl NotImplementedError) \<and>
   (L kw = Inr base \<longrightarrow>
      ((\<exists>e. SineCosinePositionEmbedding_init L mode od kw = Inl e) \<longleftrightarrow>
         (mode \<notin> {''expand'', ''add'', ''concat''} \<or>
          (mode \<in> {''expand'', ''concat''} \<and> od = None) \<or>
          (mode \<in> {''expand'', ''concat''} \<and> (\<exists>k. od = Some k \<and> k mod 2 \<noteq> 0)))) \<and>
      SineCosinePositionEmbedding_init L ''add'' od kw =
        Inr ([''supports_masking'' \<mapsto> PyBool True, ''mode'' \<mapsto> PyStr ''add'',
              ''output_dim'' \<mapsto> output_dim_val od] ++ base))"
  by (auto simp: SineCosinePositionEmbedding_init_def then_do_def Let_def
      split: if_splits option.splits sum.splits)

theorem SineCosinePositionEmbedding_init_fails_iff_witness:
  "SineCosinePositionEmbedding_init Inr ''linear'' (Some 4) no_kwargs = Inl AssertionError \<and>
   SineCosinePositionEmbedding_init Inr ''expand'' None no_kwargs = Inl NotImplementedError \<and>
   SineCosinePositionEmbedding_init Inr ''concat'' (Some 3) no_kwargs = Inl NotImplementedError \<and>
   SineCosinePositionEmbedding_init Inr ''add'' (Some 3) no_kwargs =
     Inr ([''supports_masking'' \<mapsto> PyBool True, ''mode'' \<mapsto> PyStr ''add'',
           ''output_dim'' \<mapsto> PyInt 3] ++ no_kwargs) \<and>
   (\<nexists>e. SineCosinePositionEmbedding_init Inr ''concat'' (Some 4) no_kwargs = Inl e)"
  using SineCosinePositionEmbedding_init_fails_iff [of "''linear''" Inr "Some 4" no_kwargs 4 no_kwargs]
    SineCosinePositionEmbedding_init_fails_iff [of "''expand''" Inr None no_kwargs 3 no_kwargs]
    SineCosinePositionEmbedding_init_fails_iff [of "''concat''" Inr "Some 3" no_kwargs 3 no_kwargs]
    SineCosinePositionEmbedding_init_fails_iff [of "''concat''" Inr "Some 4" no_kwargs 4 no_kwargs]
  by (simp add: output_dim_val_def)

section \<open>SineCosinePositionEmbedding: shape inference\<close>

lemma compute_output_shape_expand:
  "self ''mode'' = Some (PyStr ''expand'') \<Longrightarrow> self ''output_dim'' = Some d \<Longrightarrow>
   SineCosinePositionEmbedding_compute_output_shape self s = Inr (s @ [d])"
  by (simp add: SineCosinePositionEmbedding_compute_output_shape_def getattr_def)

lemma compute_output_shape_concat:
  "self ''mode'' = Some (PyStr ''concat'') \<Longrightarrow> self ''output_dim'' = Some (PyInt k) \<Longrightarrow>
   SineCosinePositionEmbedding_compute_output_shape self (s @ [PyInt n]) =
     Inr (s @ [PyInt (n + k)])"
  by (simp add: SineCosinePositionEmbedding_compute_output_shape_def getattr_def py_add_def)

lemma compute_output_shape_add:
  "self ''mode'' = Some (PyStr ''add'') \<Longrightarrow>
   SineCosinePositionEmbedding_compute_output_shape self s = Inr s"
  by (simp add: SineCosinePositionEmbedding_compute_output_shape_def getattr_def)

text \<open>
  In mode \<open>concat\<close> the trailing dimension must be there and known: an empty shape and an
  unknown (\<open>None\<close>) trailing dimension are errors.
\<close>

lemma compute_output_shape_concat_unknown:
  "self ''mode'' = Some (PyStr ''concat'') \<Longrightarrow> self ''output_dim'' = Some (PyInt k) \<Longrightarrow>
   SineCosinePositionEmbedding_compute_output_shape self (s @ [PyNone]) = Inl TypeError \<and>
   SineCosinePositionEmbedding_compute_output_shape self [] = Inl IndexError"
proof
  assume "self ''mode'' = Some (PyStr ''concat'')" "self ''output_dim'' = Some (PyInt k)"
  then show "SineCosinePositionEmbedding_compute_output_shape self (s @ [PyNone]) = Inl TypeError"
    by (simp add: SineCosinePositionEmbedding_compute_output_shape_def getattr_def py_add_def)
next
  assume "self ''mode'' = Some (PyStr ''concat'')" "self ''output_dim'' = Some (PyInt k)"
  then show "SineCosinePositionEmbedding_compute_output_shape self [] = Inl IndexError"
    by (simp add: SineCosinePositionEmbedding_compute_output_shape_def getattr_def py_last_def)
qed

text \<open>
  C5.  For a constructed layer (the host's initializer assigning neither \<open>mode\<close> nor
  \<open>output_dim\<close>), \<open>compute_output_shape\<close> maps the static input shape as follows: mode
  \<open>expand\<close> appends \<open>output_dim\<close> as a new trailing dimension; mode \<open>concat\<close> adds
  \<open>output_dim\<close> to the trailing dimension; mode \<open>add\<close> returns the shape unchanged.
\<close>

theorem SineCosinePositionEmbedding_compute_output_shape_modes:
  assumes "SineCosinePositionEmbedding_init L mode od kw = Inr self"
    and "L kw = Inr base" and "base ''mode'' = None" and "base ''output_dim'' = None"
  shows "(mode = ''expand'' \<longrightarrow> (\<exists>d. od = Some d \<and>
            SineCosinePositionEmbedding_compute_output_shape self s = Inr (s @ [PyInt d]))) \<and>
         (mode = ''concat'' \<longrightarrow> (\<exists>d. od = Some d \<and>
            SineCosinePositionEmbedding_compute_output_shape self (s @ [PyInt n]) =
              Inr (s @ [PyInt (n + d)]))) \<and>
         (mode = ''add'' \<longrightarrow>
            SineCosinePositionEmbedding_compute_output_shape self s = Inr s)"
proof -
  note a = init_attrs [OF assms(1,2)]
  have m: "self ''mode'' = Some (PyStr mode)" using a(1) assms(3) .
  have d: "self ''output_dim'' = Some (output_dim_val od)" using a(2) assms(4) .
  from init_Inr [OF assms(1)]
  have ev: "mode \<noteq> ''add'' \<longrightarrow> (\<exists>n. od = Some n)" by auto
  show ?thesis
  proof (intro conjI impI)
    assume e: "mode = ''expand''"
    with ev obtain k where k: "od = Some k" by auto
    with d have "self ''output_dim'' = Some (PyInt k)" by (simp add: output_dim_val_def)
    with m e k show "\<exists>d. od = Some d \<and>
            SineCosinePositionEmbedding_compute_output_shape self s = Inr (s @ [PyInt d])"
      by (simp add: compute_output_shape_expand)
  next
    assume e: "mode = ''concat''"
    with ev obtain k where k: "od = Some k" by auto
    with d have "self ''output_dim'' = Some (PyInt k)" by (simp add: output_dim_val_def)
    with m e k show "\<exists>d. od = Some d \<and>
            SineCosinePositionEmbedding_compute_output_shape self (s @ [PyInt n]) =
              Inr (s @ [PyInt (n + d)])"
      by (simp add: compute_output_shape_concat)
  next
    assume "mode = ''add''"
    with m show "SineCosinePositionEmbedding_compute_output_shape self s = Inr s"
      by (simp add: compute_output_shape_add)
  qed
qed

theorem SineCosinePositionEmbedding_compute_output_shape_modes_witness:
  "SineCosinePositionEmbedding_compute_output_shape
      [''supports_masking'' \<mapsto> PyBool True, ''mode'' \<mapsto> PyStr ''expand'',
       ''output_dim'' \<mapsto> PyInt 8]
      [PyInt 2, PyInt 5] = Inr [PyInt 2, PyInt 5, PyInt 8] \<and>
   SineCosinePositionEmbedding_compute_output_shape
      [''supports_masking'' \<mapsto> PyBool True, ''mode'' \<mapsto> PyStr ''concat'',
       ''output_dim'' \<mapsto> PyInt 8]
      [PyNone, PyInt 5, PyInt 16] = Inr [PyNone, PyInt 5, PyInt 24] \<and>
   SineCosinePositionEmbedding_compute_output_shape
      [''supports_masking'' \<mapsto> PyBool True, ''mode'' \<mapsto> PyStr ''add'',
       ''output_dim'' \<mapsto> PyNone]
      [PyNone, PyInt 5, PyInt 16] = Inr [PyNone, PyInt 5, PyInt 16]"
  using SineCosinePositionEmbedding_compute_output_shape_modes
      [OF init_examples(1) refl no_kwargs_None no_kwargs_None, of "[PyInt 2, PyInt 5]" 0]
    SineCosinePositionEmbedding_compute_output_shape_modes
      [OF init_examples(2) refl no_kwargs_None no_kwargs_None, of "[PyNone, PyInt 5]" 16]
    SineCosinePositionEmbedding_compute_output_shape_modes
      [OF init_examples(3) refl no_kwargs_None no_kwargs_None, of "[PyNone, PyInt 5, PyInt 16]" 0]
  by simp

section \<open>SineCosinePositionEmbedding: forward evaluation\<close>

text \<open>
  C1 (as amended).  \<open>call\<close> reads the shape of its input first and the attribute \<open>model\<close>
  after it.  No code path assigns \<open>model\<close>: for a constructed layer (the host's
  initializer assigning neither \<open>mode\<close> nor \<open>model\<close>) and an input of at least two
  dimensions, three in mode \<open>add\<close>, \<open>call\<close> raises \<open>AttributeError\<close> for \<open>model\<close>; on an
  input of fewer dimensions indexing the shape raises first.  No input yields a tensor.
\<close>

theorem SineCosinePositionEmbedding_call_raises:
  assumes "SineCosinePositionEmbedding_init L mode od kw = Inr self"
    and "L kw = Inr base" and "base ''mode'' = None" and "base ''model'' = None"
  shows "SineCosinePositionEmbedding_call self inputs =
           (if length (shape inputs) < (if mode = ''add'' then 3 else 2) then Inl IndexError
            else Inl (AttributeError ''model''))"
proof -
  note a = init_attrs [OF assms(1,2)]
  have m: "self ''mode'' = Some (PyStr mode)" using a(1) assms(3) .
  have x: "self ''model'' = None" using a(3) assms(4) .
  from init_Inr [OF assms(1)] have "\<exists>v. self ''output_dim'' = Some v"
    by (auto simp: map_add_def split: option.splits)
  then show ?thesis using m x
    by (auto simp: SineCosinePositionEmbedding_call_def K_shape_def shape_index_def getattr_def
        Let_def)
qed

theorem SineCosinePositionEmbedding_call_raises_witness:
  "SineCosinePositionEmbedding_call
      [''supports_masking'' \<mapsto> PyBool True, ''mode'' \<mapsto> PyStr ''expand'',
       ''output_dim'' \<mapsto> PyInt 8]
      \<lparr>shape = [1, 3], elems = [0, 1, 2]\<rparr> = Inl (AttributeError ''model'') \<and>
   SineCosinePositionEmbedding_call
      [''supports_masking'' \<mapsto> PyBool True, ''mode'' \<mapsto> PyStr ''add'',
       ''output_dim'' \<mapsto> PyNone]
      \<lparr>shape = [1, 1, 2], elems = [0, 0]\<rparr> = Inl (AttributeError ''model'')"
  using SineCosinePositionEmbedding_call_raises
      [OF init_examples(1) refl no_kwargs_None no_kwargs_None,
       of "\<lparr>shape = [1, 3], elems = [0, 1, 2]\<rparr>"]
    SineCosinePositionEmbedding_call_raises
      [OF init_examples(3) refl no_kwargs_None no_kwargs_None,
       of "\<lparr>shape = [1, 1, 2], elems = [0, 0]\<rparr>"]
  by simp

text \<open>
  The claim as stated, an \<open>AttributeError\<close> on every input tensor, fails on a matrix
  given to a layer in the default mode \<open>add\<close>: reading \<open>input_shape[2]\<close> raises first.
\<close>

theorem SineCosinePositionEmbedding_call_matrix_in_add_mode:
  "SineCosinePositionEmbedding_apply Inr ''add'' None no_kwargs
      \<lparr>shape = [2, 2], elems = [0, 1, 0, 1]\<rparr> = Inl IndexError"
  by (simp add: SineCosinePositionEmbedding_apply_def init_examples
      SineCosinePositionEmbedding_call_def K_shape_def shape_index_def getattr_def)

text \<open>
  C2.  The claim gives the values of the encoding that \<open>call\<close> produces.  In mode \<open>expand\<close>
  with \<open>output_dim = 8\<close>, on the positions \<open>[[0, 1, 10]]\<close>, \<open>call\<close> produces no encoding: it
  raises \<open>AttributeError\<close> for the attribute \<open>model\<close>.
\<close>

theorem SineCosinePositionEmbedding_call_expand_no_encoding:
  "SineCosinePositionEmbedding_apply Inr ''expand'' (Some 8) no_kwargs
      \<lparr>shape = [1, 3], elems = [0, 1, 10]\<rparr> = Inl (AttributeError ''model'')"
  by (simp add: SineCosinePositionEmbedding_apply_def init_examples
      SineCosinePositionEmbedding_call_def K_shape_def shape_index_def getattr_def)

text \<open>
  C3.  The claim says which positions \<open>call\<close> encodes in each mode and that mode \<open>add\<close>
  adds the encoding to the input.  In mode \<open>add\<close> and in mode \<open>concat\<close>, on a feature
  tensor of shape \<open>(1, 2, 2)\<close>, \<open>call\<close> returns nothing: the test that selects the positions
  reads \<open>self.model\<close> and raises \<open>AttributeError\<close>.
\<close>

theorem SineCosinePositionEmbedding_call_add_concat_no_output:
  "SineCosinePositionEmbedding_apply Inr ''add'' None no_kwargs
      \<lparr>shape = [1, 2, 2], elems = [1, 2, 3, 4]\<rparr> = Inl (AttributeError ''model'') \<and>
   SineCosinePositionEmbedding_apply Inr ''concat'' (Some 8) no_kwargs
      \<lparr>shape = [1, 2, 2], elems = [1, 2, 3, 4]\<rparr> = Inl (AttributeError ''model'')"
  by (simp add: SineCosinePositionEmbedding_apply_def init_examples
      SineCosinePositionEmbedding_call_def K_shape_def shape_index_def getattr_def)

section \<open>SineCosinePositionEmbedding: the stages after the failing line\<close>

lemma length_concat_map_fixed:
  "(\<And>x. x \<in> set xs \<Longrightarrow> length (f x) = n) \<Longrightarrow> length (concat (map f xs)) = length xs * n"
  by (induction xs) simp_all

lemma nth_concat_map_fixed:
  assumes "\<And>x. x \<in> set xs \<Longrightarrow> length (f x) = n" and "i < length xs" and "j < n"
  shows "concat (map f xs) ! (i * n + j) = f (xs ! i) ! j"
  using assms
proof (induction xs arbitrary: i)
  case Nil
  then show ?case by simp
next
  case (Cons x xs)
  show ?case
  proof (cases i)
    case 0
    with Cons.prems show ?thesis by (simp add: nth_append)
  next
    case (Suc k)
    have len: "length (f x) = n" using Cons.prems(1) by simp
    have "concat (map f (x # xs)) ! (i * n + j) = concat (map f xs) ! (k * n + j)"
      using Suc len by (simp add: nth_append)
    also have "\<dots> = f (xs ! k) ! j"
      using Cons.prems Suc by (intro Cons.IH) auto
    finally show ?thesis using Suc by simp
  qed
qed

lemma K_arange_0:
  "0 \<le> h \<Longrightarrow> shape (K_arange 0 h) = [nat h] \<and> length (elems (K_arange 0 h)) = nat h \<and>
     (\<forall>i < nat h. elems (K_arange 0 h) ! i = real i)"
  by (simp add: K_arange_def)

text \<open>
  Line 212: the positions built for the modes \<open>add\<close> and \<open>concat\<close> are \<open>0, ..., seq_len - 1\<close>
  in every row of the batch.
\<close>

lemma K_tile_positions:
  "\<exists>t. K_tile (K_expand_dims (K_arange 0 (int s)) 0) [b, 1] = Inr t \<and> shape t = [b, s] \<and>
       length (elems t) = b * s \<and>
       (\<forall>r < b. \<forall>j < s. elems t ! (r * s + j) = real j)"
proof -
  let ?E = "elems (K_arange 0 (int s))"
  from K_arange_0 [of "int s"] have a: "shape (K_arange 0 (int s)) = [s]" "length ?E = s"
    "\<And>i. i < s \<Longrightarrow> ?E ! i = real i" by auto
  have t: "K_tile (K_expand_dims (K_arange 0 (int s)) 0) [b, 1] =
      Inr \<lparr>shape = [b, s], elems = concat (map (\<lambda>r. ?E) [0..<b])\<rparr>"
    using a(1,2) by (simp add: K_tile_def K_expand_dims_def map_replicate_const)
  have n: "concat (map (\<lambda>r. ?E) [0..<b]) ! (r * s + j) = real j" if "r < b" "j < s" for r j
    using nth_concat_map_fixed [of "[0..<b]" "\<lambda>r. ?E" s r j] that a(2,3) by simp
  have l: "length (concat (map (\<lambda>r. ?E) [0..<b])) = b * s"
    using length_concat_map_fixed [of "[0..<b]" "\<lambda>r. ?E" s] a(2) by simp
  show ?thesis using t n l by simp
qed

lemma K_dot_outer:
  assumes "shape x = sx @ [1]" and "sx \<noteq> []" and "shape y = [1, n]"
  shows "K_dot x y = Inr \<lparr>shape = sx @ [n],
           elems = concat (map (\<lambda>r. map (\<lambda>j. elems x ! r * elems y ! j) [0..<n])
                     [0..<prod_list sx])\<rparr>"
proof -
  have "2 \<le> length (shape x)" using assms(1,2) by (cases sx) auto
  then show ?thesis using assms by (simp add: K_dot_def)
qed

lemma interleave_nth:
  assumes "i < length xs"
  shows "concat (map (\<lambda>i. [xs ! i, ys ! i]) [0..<length xs]) ! (i * 2) = xs ! i"
    and "concat (map (\<lambda>i. [xs ! i, ys ! i]) [0..<length xs]) ! (i * 2 + 1) = ys ! i"
    and "length (concat (map (\<lambda>i. [xs ! i, ys ! i]) [0..<length xs])) = length xs * 2"
proof -
  let ?f = "\<lambda>i. [xs ! i, ys ! i]"
  let ?is = "[0..<length xs]"
  have "concat (map ?f ?is) ! (i * 2 + 0) = ?f (?is ! i) ! 0"
    using assms by (intro nth_concat_map_fixed) auto
  then show "concat (map ?f ?is) ! (i * 2) = xs ! i" using assms by simp
  have "concat (map ?f ?is) ! (i * 2 + 1) = ?f (?is ! i) ! 1"
    using assms by (intro nth_concat_map_fixed) auto
  then show "concat (map ?f ?is) ! (i * 2 + 1) = ys ! i" using assms by simp
  show "length (concat (map ?f ?is)) = length xs * 2"
    using length_concat_map_fixed [of ?is ?f 2] by simp
qed

lemma outer_nth:
  assumes "r < m" and "j < n"
  shows "concat (map (\<lambda>r. map (\<lambda>j. g r j) [0..<n]) [0..<m]) ! (r * n + j) = g r j"
    and "length (concat (map (\<lambda>r. map (\<lambda>j. g r j) [0..<n]) [0..<m])) = m * n"
proof -
  let ?f = "\<lambda>r. map (\<lambda>j. g r j) [0..<n]"
  have "concat (map ?f [0..<m]) ! (r * n + j) = ?f ([0..<m] ! r) ! j"
    using assms by (intro nth_concat_map_fixed) auto
  then show "concat (map ?f [0..<m]) ! (r * n + j) = g r j" using assms by simp
  show "length (concat (map ?f [0..<m])) = m * n"
    using length_concat_map_fixed [of "[0..<m]" ?f n] by simp
qed

lemma outer_length:
  "length (concat (map (\<lambda>r. map (\<lambda>j. g r j) [0..<n]) [0..<m])) = m * n"
  using length_concat_map_fixed [of "[0..<m]" "\<lambda>r. map (\<lambda>j. g r j) [0..<n]" n] by simp

text \<open>
  Lines 215 to 236, for positions of shape \<open>(b, s)\<close> and an even width \<open>2 * h\<close>: channel
  \<open>2 * i\<close> of the encoding of position \<open>p\<close> is \<open>sin (p / 10000 powr (2 * i / (2 * h)))\<close>,
  channel \<open>2 * i + 1\<close> the cosine of the same argument.
\<close>

lemma sincos_embed_channels:
  assumes pos: "shape pos = [b, s]" and s: "0 < s" and h: "0 < h"
  shows "\<exists>t. sincos_embed pos s (2 * h) = Inr t \<and> shape t = [b, s, nat (2 * h)] \<and>
     (\<forall>r < b * s. \<forall>i < nat h.
        elems t ! (r * nat (2 * h) + 2 * i) =
          sin (elems pos ! r / 10000 powr (real (2 * i) / real_of_int (2 * h))) \<and>
        elems t ! (r * nat (2 * h) + 2 * i + 1) =
          cos (elems pos ! r / 10000 powr (real (2 * i) / real_of_int (2 * h))))"
proof -
  define n where "n = nat h"
  define fr where "fr = (\<lambda>j. 1 / 10000 powr (real j * 2 / real_of_int (2 * h)))"
  define X where "X = K_expand_dims (K_cast pos) (- 1)"
  define Fs where "Fs = K_expand_dims (tmap (\<lambda>x. 1 / x)
      (K_pow 10000 (tmap (\<lambda>x. x / real_of_int (2 * h))
         (K_cast (tmap (\<lambda>x. x * 2) (K_arange 0 (2 * h div 2))))))) 0"
  define Fc where "Fc = K_expand_dims (tmap (\<lambda>x. 1 / x)
      (K_pow 10000 (tmap (\<lambda>x. x / real_of_int (2 * h))
         (K_cast (tmap (\<lambda>x. x - 1) (tmap (\<lambda>x. x * 2 + 1) (K_arange 0 (2 * h div 2)))))))) 0"
  define S where "S = concat (map (\<lambda>r. map (\<lambda>j. elems pos ! r * fr j) [0..<n]) [0..<b * s])"
  have hn: "0 \<le> h" "nat (2 * h) = 2 * n" "0 < n" using h by (auto simp: n_def)
  have X: "shape X = [b, s] @ [1]" "elems X = elems pos"
    using pos by (simp_all add: X_def K_expand_dims_def K_cast_def)
  have ar: "elems (K_arange 0 h) = map real [0..<n]"
    using K_arange_0 [OF hn(1)] by (intro nth_equalityI) (auto simp: n_def)
  have Fs: "shape Fs = [1, n]" "elems Fs = map fr [0..<n]"
    using K_arange_0 [OF hn(1)] ar
    by (simp_all add: Fs_def K_expand_dims_def K_cast_def K_pow_def tmap_def n_def fr_def)
  have Fc: "shape Fc = [1, n]" "elems Fc = map fr [0..<n]"
    using K_arange_0 [OF hn(1)] ar
    by (simp_all add: Fc_def K_expand_dims_def K_cast_def K_pow_def tmap_def n_def fr_def)
  have row: "map (\<lambda>j. elems pos ! r * map fr [0..<n] ! j) [0..<n] =
      map (\<lambda>j. elems pos ! r * fr j) [0..<n]" for r
    by (rule map_cong) auto
  have ds: "K_dot X Fs = Inr \<lparr>shape = [b, s, n], elems = S\<rparr>"
    using K_dot_outer [OF X(1) _ Fs(1)] by (simp add: X(2) Fs(2) S_def row)
  have dc: "K_dot X Fc = Inr \<lparr>shape = [b, s, n], elems = S\<rparr>"
    using K_dot_outer [OF X(1) _ Fc(1)] by (simp add: X(2) Fc(2) S_def row)
  have lS: "length S = b * s * n" unfolding S_def by (rule outer_length)
  define E where "E = concat (map (\<lambda>i. [map sin S ! i, map cos S ! i]) [0..<length (map sin S)])"
  have st: "K_stack (tmap sin \<lparr>shape = [b, s, n], elems = S\<rparr>)
        (tmap cos \<lparr>shape = [b, s, n], elems = S\<rparr>) =
      Inr \<lparr>shape = [b, s, n, 2], elems = E\<rparr>"
    by (simp add: K_stack_def tmap_def E_def)
  have lE: "length E = b * s * n * 2"
    unfolding E_def
    using length_concat_map_fixed [of "[0..<length (map sin S)]"
        "\<lambda>i. [map sin S ! i, map cos S ! i]" 2] lS
    by simp
  have rs: "K_reshape \<lparr>shape = [b, s, n, 2], elems = E\<rparr> s (2 * h) =
      Inr \<lparr>shape = [b, s, nat (2 * h)], elems = E\<rparr>"
    using s hn h by (simp add: K_reshape_def lE)
  have emb: "sincos_embed pos s (2 * h) = Inr \<lparr>shape = [b, s, nat (2 * h)], elems = E\<rparr>"
    unfolding sincos_embed_def Let_def
    unfolding X_def [symmetric] Fs_def [symmetric] Fc_def [symmetric]
    by (simp only: ds dc st rs then_do_simps)
  have ch: "E ! (r * nat (2 * h) + 2 * i) = sin (elems pos ! r / 10000 powr (real (2 * i) / real_of_int (2 * h))) \<and>
      E ! (r * nat (2 * h) + 2 * i + 1) = cos (elems pos ! r / 10000 powr (real (2 * i) / real_of_int (2 * h)))"
    if "r < b * s" "i < nat h" for r i
  proof -
    have i: "i < n" using that(2) by (simp add: n_def)
    have k: "r * n + i < length (map sin S)"
    proof -
      have "r * n + i < r * n + n" using i by simp
      also have "\<dots> = (r + 1) * n" by simp
      also have "\<dots> \<le> (b * s) * n" using that(1) by (intro mult_le_mono1) simp
      finally show ?thesis using lS by simp
    qed
    have Sn: "S ! (r * n + i) = elems pos ! r * fr i"
      unfolding S_def using that(1) i by (rule outer_nth(1))
    have idx: "r * nat (2 * h) + 2 * i = (r * n + i) * 2"
      using hn(2) by (simp add: algebra_simps)
    have v: "elems pos ! r * fr i = elems pos ! r / 10000 powr (real (2 * i) / real_of_int (2 * h))"
      by (simp add: fr_def mult.commute)
    have a1: "E ! (r * nat (2 * h) + 2 * i) = map sin S ! (r * n + i)"
      unfolding idx E_def using k by (rule interleave_nth(1))
    have a2: "E ! (r * nat (2 * h) + 2 * i + 1) = map cos S ! (r * n + i)"
      unfolding idx E_def using k by (rule interleave_nth(2))
    have k': "r * n + i < length S" using k by simp
    show ?thesis
      unfolding a1 a2 by (simp only: nth_map [OF k'] Sn v)
  qed
  show ?thesis using emb ch by simp
qed

text \<open>
  Were the attribute \<open>model\<close> there, with a value other than \<open>add\<close> and \<open>concat\<close>, a layer
  in mode \<open>expand\<close> would return this encoding of its input.
\<close>

lemma call_expand_with_model:
  assumes "self ''mode'' = Some (PyStr ''expand'')" and "self ''output_dim'' = Some (PyInt d)"
    and "self ''model'' = Some v" and "v \<notin> {PyStr ''add'', PyStr ''concat''}"
    and "shape inputs = [b, s]"
  shows "SineCosinePositionEmbedding_call self inputs = sincos_embed inputs s d"
  using assms
  by (simp add: SineCosinePositionEmbedding_call_def K_shape_def shape_index_def getattr_def
      as_int_def)


section \<open>FeedForward: building and shapes\<close>

lemma then_do_Inr_iff: "then_do r f = Inr y \<longleftrightarrow> (\<exists>x. r = Inr x \<and> f x = Inr y)"
  by (cases r) simp_all

lemma FeedForward_init_Inr:
  assumes "FeedForward_init K u a ki kr kc bi br bc ub dr kw = Inr l"
  shows "\<exists>base act k_init k_reg k_con b_init b_reg b_con.
     Layer_init K kw = Inr base \<and> activations_get K a = Inr act \<and>
     initializers_get K ki = Inr k_init \<and> regularizers_get K kr = Inr k_reg \<and>
     constraints_get K kc = Inr k_con \<and> initializers_get K bi = Inr b_init \<and>
     regularizers_get K br = Inr b_reg \<and> constraints_get K bc = Inr b_con \<and>
     l = \<lparr>layer_attrs = base, supports_masking = True, units = u,
          activation = act,
          kernel_initializer = k_init, kernel_regularizer = k_reg, kernel_constraint = k_con,
          bias_initializer = b_init, bias_regularizer = b_reg, bias_constraint = b_con,
          use_bias = ub, dropout_rate = dr,
          W1 = None, W2 = None, b1 = None, b2 = None,
          dropout_layer = None, built = False\<rparr>"
  using assms unfolding FeedForward_init_def then_do_Inr_iff by auto

lemma add_weight_Inr:
  "add_weight shp i r c nm = Inr w \<Longrightarrow>
     list_all (\<lambda>d. 0 \<le> d) shp \<and>
     w = \<lparr>w_shape = map nat shp, w_initializer = i, w_regularizer = r, w_constraint = c, w_name = nm\<rparr>"
  by (auto simp: add_weight_def split: if_splits)

lemma build_Inr:
  assumes "FeedForward_build l0 sh = Inr l"
  shows "\<exists>d f w1 w2. py_last sh = Inr d \<and> py_int d = Inr f \<and> 0 \<le> f \<and> 0 \<le> units l0 \<and>
           W1 l = Some w1 \<and> w_shape w1 = [nat f, nat (units l0)] \<and>
           W2 l = Some w2 \<and> w_shape w2 = [nat (units l0), nat f] \<and>
           (use_bias l0 \<longrightarrow> (\<exists>w3 w4. b1 l = Some w3 \<and> w_shape w3 = [nat (units l0)] \<and>
                                 b2 l = Some w4 \<and> w_shape w4 = [nat f])) \<and>
           dropout_layer l =
             (if 0 < dropout_rate l0 then Some (dropout_rate l0) else dropout_layer l0) \<and>
           use_bias l = use_bias l0 \<and> activation l = activation l0 \<and>
           dropout_rate l = dropout_rate l0 \<and> units l = units l0 \<and> built l"
  using assms
  apply (simp add: FeedForward_build_def then_do_def Let_def split: sum.splits if_splits)
  apply (auto dest!: add_weight_Inr)
  done

lemma K_dot_shape:
  assumes "shape y = [m, n]" "2 \<le> length (shape x)" "last (shape x) = m"
  shows "\<exists>h. K_dot x y = Inr h \<and> shape h = butlast (shape x) @ [n]"
  using assms by (simp add: K_dot_def)

lemma K_bias_add_shape:
  assumes "shape b = [n]" "2 \<le> length (shape x)" "last (shape x) = n"
  shows "\<exists>h. K_bias_add x b = Inr h \<and> shape h = shape x"
  using assms by (simp add: K_bias_add_def)

lemma Dropout_call_shape [simp]: "shape (Dropout_call r t k x) = shape x"
  by (simp add: Dropout_call_def)

lemma weight_tensor_shape [simp]: "shape (weight_tensor v w) = w_shape w"
  by (simp add: weight_tensor_def)

lemma linear_map_shape:
  assumes "w_shape w = [m, n]" "2 \<le> length (shape x)" "last (shape x) = m"
  shows "\<exists>h. linear_map v (Some w) nm x = Inr h \<and> shape h = butlast (shape x) @ [n]"
  using K_dot_shape [of "weight_tensor v w" m n x] assms
  by (simp add: linear_map_def get_weight_def)

lemma bias_add_step_shape:
  assumes "on \<longrightarrow> (\<exists>b. w = Some b \<and> w_shape b = [n])" "2 \<le> length (shape x)" "last (shape x) = n"
  shows "\<exists>h. bias_add_step on v w nm x = Inr h \<and> shape h = shape x"
proof (cases on)
  case True
  with assms(1) obtain b where b: "w = Some b" "w_shape b = [n]" by auto
  from K_bias_add_shape [of "weight_tensor v b" n x] b assms(2,3) True
  show ?thesis by (simp add: bias_add_step_def get_weight_def)
next
  case False
  then show ?thesis by (simp add: bias_add_step_def)
qed

lemma then_do_assoc: "then_do (then_do a f) g = then_do a (\<lambda>x. then_do (f x) g)"
  by (cases a) simp_all

lemma FeedForward_call_eq_steps:
  "FeedForward_call l v tr k x =
     FeedForward_steps (use_bias l) (activation l \<noteq> None) (0 < dropout_rate l) (use_bias l)
       l v tr k x"
  by (cases "activation l")
    (simp_all add: FeedForward_call_def FeedForward_steps_def linear_map_def bias_add_step_def
      activation_step_def dropout_step_def then_do_assoc Let_def)

lemma Dense2_eta:
  "Dense2 l v = (\<lambda>x. then_do (linear_map v (W2 l) ''W2'' x)
       (bias_add_step (use_bias l) v (b2 l) ''b2''))"
  by (rule ext) (simp add: Dense2_def)

lemma FeedForward_call_eq_Dense:
  "FeedForward_call l v tr k x =
     then_do (then_do (then_do (Dense1 l v x) (Activation l)) (Dropout l tr k)) (Dense2 l v)"
  by (simp add: FeedForward_call_eq_steps FeedForward_steps_def Dense1_def Dense2_eta
      Activation_def Dropout_def then_do_assoc)

lemma steps_shape:
  assumes w1: "W1 l = Some w1" "w_shape w1 = [f, u]"
    and w2: "W2 l = Some w2" "w_shape w2 = [u, f]"
    and b1: "t1 \<longrightarrow> (\<exists>b. b1 l = Some b \<and> w_shape b = [u])"
    and b2: "t4 \<longrightarrow> (\<exists>b. b2 l = Some b \<and> w_shape b = [f])"
    and dr: "t3 \<longrightarrow> dropout_layer l \<noteq> None"
    and act: "\<forall>g y. activation l = Some g \<longrightarrow> shape (fn_apply g y) = shape y"
    and x: "2 \<le> length (shape x)" "last (shape x) = f"
  shows "\<exists>out. FeedForward_steps t1 t2 t3 t4 l v tr k x = Inr out \<and> shape out = shape x"
proof -
  from linear_map_shape [OF w1(2) x, of v "''W1''"] w1(1)
  obtain h1 where h1: "linear_map v (W1 l) ''W1'' x = Inr h1" "shape h1 = butlast (shape x) @ [u]"
    by auto
  from x have ne: "shape x \<noteq> []" by auto
  have r1: "2 \<le> length (shape h1)" "last (shape h1) = u" using h1(2) x by auto
  from bias_add_step_shape [OF b1 r1, of v "''b1''"]
  obtain h2 where h2: "bias_add_step t1 v (b1 l) ''b1'' h1 = Inr h2" "shape h2 = shape h1" by auto
  have "\<exists>h3. activation_step t2 l h2 = Inr h3 \<and> shape h3 = shape h2"
    using act by (simp add: activation_step_def split: option.splits)
  then obtain h3 where h3: "activation_step t2 l h2 = Inr h3" "shape h3 = shape h2" by auto
  have "\<exists>h4. dropout_step t3 l tr k h3 = Inr h4 \<and> shape h4 = shape h3"
    using dr by (cases "dropout_layer l") (simp_all add: dropout_step_def)
  then obtain h4 where h4: "dropout_step t3 l tr k h3 = Inr h4" "shape h4 = shape h3" by auto
  have r4: "2 \<le> length (shape h4)" "last (shape h4) = u" using h4(2) h3(2) h2(2) r1 by auto
  from linear_map_shape [OF w2(2) r4, of v "''W2''"] w2(1)
  obtain o1 where o1: "linear_map v (W2 l) ''W2'' h4 = Inr o1" "shape o1 = butlast (shape h4) @ [f]"
    by auto
  have "butlast (shape h4) = butlast (shape x)"
    using h4(2) h3(2) h2(2) h1(2) by simp
  with o1(2) x(2) ne have so: "shape o1 = shape x"
    by (metis append_butlast_last_id)
  then have r5: "2 \<le> length (shape o1)" "last (shape o1) = f" using x by auto
  from bias_add_step_shape [OF b2 r5, of v "''b2''"]
  obtain o2 where o2: "bias_add_step t4 v (b2 l) ''b2'' o1 = Inr o2" "shape o2 = shape o1" by auto
  show ?thesis
    using h1(1) h2(1) h3(1) h4(1) o1(1) o2 so
    by (simp add: FeedForward_steps_def)
qed

text \<open>
  C6.  \<open>compute_output_shape\<close> is the identity.  \<open>build\<close>, for an input shape with trailing
  dimension \<open>f\<close>, allocates \<open>W1\<close> of shape \<open>(f, units)\<close> and \<open>W2\<close> of shape \<open>(units, f)\<close>.  On
  every input of at least two dimensions whose trailing dimension is \<open>f\<close>, and whatever
  the weights' values, the training flag and the dropout mask, the built layer returns a
  tensor of the input's shape, provided the configured activation keeps shapes.
\<close>

theorem FeedForward_shape_preserved:
  assumes "FeedForward_build l0 (s @ [PyInt f]) = Inr l"
    and "2 \<le> length (shape inputs)" and "int (last (shape inputs)) = f"
    and "\<forall>g y. activation l0 = Some g \<longrightarrow> shape (fn_apply g y) = shape y"
  shows "FeedForward_compute_output_shape l sh = sh \<and>
         (\<exists>w1 w2. W1 l = Some w1 \<and> W2 l = Some w2 \<and>
            map int (w_shape w1) = [f, units l] \<and> map int (w_shape w2) = [units l, f]) \<and>
         (\<exists>out. FeedForward_call l values training keep inputs = Inr out \<and>
            shape out = shape inputs)"
proof -
  from build_Inr [OF assms(1)] obtain w1 w2 where
    b: "0 \<le> f" "0 \<le> units l0"
      "W1 l = Some w1" "w_shape w1 = [nat f, nat (units l0)]"
      "W2 l = Some w2" "w_shape w2 = [nat (units l0), nat f]"
      "use_bias l0 \<longrightarrow> (\<exists>w3 w4. b1 l = Some w3 \<and> w_shape w3 = [nat (units l0)] \<and>
                                 b2 l = Some w4 \<and> w_shape w4 = [nat f])"
      "dropout_layer l =
             (if 0 < dropout_rate l0 then Some (dropout_rate l0) else dropout_layer l0)"
      "use_bias l = use_bias l0" "activation l = activation l0"
      "dropout_rate l = dropout_rate l0" "units l = units l0"
    by (auto simp: py_int_def)
  have x: "2 \<le> length (shape inputs)" "last (shape inputs) = nat f"
    using assms(2,3) by auto
  have "\<exists>out. FeedForward_steps (use_bias l) (activation l \<noteq> None) (0 < dropout_rate l)
           (use_bias l) l values training keep inputs = Inr out \<and> shape out = shape inputs"
  proof (rule steps_shape [OF b(3,4,5,6) _ _ _ _ x])
    show "use_bias l \<longrightarrow> (\<exists>b. b1 l = Some b \<and> w_shape b = [nat (units l0)])"
      using b(7,9) by auto
    show "use_bias l \<longrightarrow> (\<exists>b. b2 l = Some b \<and> w_shape b = [nat f])"
      using b(7,9) by auto
    show "0 < dropout_rate l \<longrightarrow> dropout_layer l \<noteq> None"
      using b(8,11) by auto
    show "\<forall>g y. activation l = Some g \<longrightarrow> shape (fn_apply g y) = shape y"
      using assms(4) b(10) by simp
  qed
  then have c: "\<exists>out. FeedForward_call l values training keep inputs = Inr out \<and>
            shape out = shape inputs"
    by (simp add: FeedForward_call_eq_steps)
  have w: "map int (w_shape w1) = [f, units l] \<and> map int (w_shape w2) = [units l, f]"
    using b by simp
  show ?thesis
    using c w b(3,5) by (simp add: FeedForward_compute_output_shape_def)
qed

section \<open>FeedForward: the forward computation\<close>

text \<open>
  C7 (as amended).  \<open>call\<close> computes, in this fixed order: the linear map with \<open>W1\<close>, the
  bias add with \<open>b1\<close> if \<open>use_bias\<close>, the activation if one is configured, dropout if
  \<open>dropout_rate > 0\<close>, the linear map with \<open>W2\<close>, the bias add with \<open>b2\<close> if \<open>use_bias\<close>;
  that is, \<open>Dense2(Dropout(Activation(Dense1(input))))\<close>.  The four optional steps are
  switched by three settings: the two bias adds go on and off together, and every
  combination of the three settings occurs.
\<close>

theorem FeedForward_call_pipeline:
  "FeedForward_call l v tr k x =
     FeedForward_steps (use_bias l) (activation l \<noteq> None) (0 < dropout_rate l) (use_bias l)
       l v tr k x \<and>
   FeedForward_call l v tr k x =
     then_do (then_do (then_do (Dense1 l v x) (Activation l)) (Dropout l tr k)) (Dense2 l v) \<and>
   range (FeedForward_toggles :: 'o FeedForward \<Rightarrow> _) = {(t1, t2, t3, t4). t4 = t1}"
proof (intro conjI)
  show "FeedForward_call l v tr k x =
     FeedForward_steps (use_bias l) (activation l \<noteq> None) (0 < dropout_rate l) (use_bias l)
       l v tr k x"
    by (rule FeedForward_call_eq_steps)
  show "FeedForward_call l v tr k x =
     then_do (then_do (then_do (Dense1 l v x) (Activation l)) (Dropout l tr k)) (Dense2 l v)"
    by (rule FeedForward_call_eq_Dense)
  show "range (FeedForward_toggles :: 'o FeedForward \<Rightarrow> _) = {(t1, t2, t3, t4). t4 = t1}"
  proof (rule set_eqI, clarsimp, rule iffI)
    fix a b c d
    assume "(a, b, c, d) \<in> range (FeedForward_toggles :: 'o FeedForward \<Rightarrow> _)"
    then show "d = a" by (auto simp: FeedForward_toggles_def)
  next
    fix a b c d :: bool
    assume "d = a"
    then have "(a, b, c, d) = FeedForward_toggles
       (\<lparr>layer_attrs = Map.empty, supports_masking = True, units = 0,
         activation = (if b then Some \<lparr>fn_name = [], fn_apply = id\<rparr> else None),
         kernel_initializer = undefined, kernel_regularizer = undefined,
         kernel_constraint = undefined, bias_initializer = undefined,
         bias_regularizer = undefined, bias_constraint = undefined,
         use_bias = a, dropout_rate = (if c then 1 / 2 else 0),
         W1 = None, W2 = None, b1 = None, b2 = None, dropout_layer = None,
         built = False\<rparr> :: 'o FeedForward)"
      by (simp add: FeedForward_toggles_def)
    then show "(a, b, c, d) \<in> range (FeedForward_toggles :: 'o FeedForward \<Rightarrow> _)"
      by (rule range_eqI)
  qed
qed

text \<open>
  The claim as stated, four independently switchable steps, fails: no configuration adds
  \<open>b1\<close> without adding \<open>b2\<close>.
\<close>

theorem FeedForward_toggles_not_independent:
  "(True, False, False, False) \<notin> range (FeedForward_toggles :: unit FeedForward \<Rightarrow> _)"
  by (auto simp: FeedForward_toggles_def)

text \<open>
  C8.  A layer constructed with \<open>dropout_rate = 0.0\<close> has no dropout layer after \<open>build\<close>,
  and its \<open>call\<close> returns the same result for every two training flags and dropout masks.
\<close>

theorem FeedForward_no_dropout_deterministic:
  assumes "FeedForward_init K u a ki kr kc bi br bc ub 0 kw = Inr l0"
    and "FeedForward_build l0 input_shape = Inr l"
  shows "dropout_layer l = None \<and>
         FeedForward_call l values training keep inputs =
           FeedForward_call l values training' keep' inputs"
proof -
  from FeedForward_init_Inr [OF assms(1)] have "dropout_layer l0 = None" "dropout_rate l0 = 0"
    by auto
  with build_Inr [OF assms(2)] have "dropout_layer l = None" "dropout_rate l = 0" by auto
  then show ?thesis by (simp add: FeedForward_call_def)
qed


lemma minimal_keras_simps [simp]:
  "Layer_init minimal_keras = minimal_Layer_init"
  "Layer_get_config minimal_keras = minimal_Layer_get_config"
  "activations_get minimal_keras = minimal_activations_get"
  "activations_serialize minimal_keras = minimal_activations_serialize"
  "initializers_get minimal_keras = Inr"
  "initializers_serialize minimal_keras v = v"
  "regularizers_get minimal_keras = Inr"
  "regularizers_serialize minimal_keras v = v"
  "constraints_get minimal_keras = Inr"
  "constraints_serialize minimal_keras v = v"
  by (simp_all add: minimal_keras_def)

lemma example_FeedForward_eq:
  "example_FeedForward =
     \<lparr>layer_attrs = [''name'' \<mapsto> PyStr ''layer''], supports_masking = True, units = 3,
      activation = Some relu_fn,
      kernel_initializer = PyStr ''glorot_normal'', kernel_regularizer = PyNone,
      kernel_constraint = PyNone, bias_initializer = PyStr ''zeros'',
      bias_regularizer = PyNone, bias_constraint = PyNone,
      use_bias = True, dropout_rate = 0,
      W1 = None, W2 = None, b1 = None, b2 = None, dropout_layer = None, built = False\<rparr>"
  by (simp add: example_FeedForward_def FeedForward_init_def minimal_Layer_init_def
      minimal_activations_get_def)

lemma example_FeedForward_init:
  "FeedForward_init minimal_keras 3 (Identifier (PyStr ''relu'')) (PyStr ''glorot_normal'')
       PyNone PyNone (PyStr ''zeros'') PyNone PyNone True 0.0 no_kwargs =
     Inr example_FeedForward"
  by (simp add: example_FeedForward_eq FeedForward_init_def minimal_Layer_init_def
      minimal_activations_get_def)

lemma example_FeedForward_fields:
  "layer_attrs example_FeedForward ''name'' = Some (PyStr ''layer'')"
  "units example_FeedForward = 3"
  "activation example_FeedForward = Some relu_fn"
  "use_bias example_FeedForward"
  "dropout_rate example_FeedForward = 0"
  by (simp_all add: example_FeedForward_eq)

lemma example_built_build:
  "FeedForward_build example_FeedForward [PyNone, PyInt 2] = Inr example_built"
  by (simp add: example_built_def FeedForward_build_def py_last_def py_int_def getattr_def
      add_weight_def example_FeedForward_fields Let_def)

lemma relu_shape [simp]: "shape (fn_apply relu_fn x) = shape x"
  by (simp add: relu_fn_def relu_def tmap_def)

theorem FeedForward_shape_preserved_witness:
  "FeedForward_compute_output_shape example_built [PyNone, PyInt 2] = [PyNone, PyInt 2] \<and>
   (\<exists>w1 w2. W1 example_built = Some w1 \<and> W2 example_built = Some w2 \<and>
      map int (w_shape w1) = [2, units example_built] \<and>
      map int (w_shape w2) = [units example_built, 2]) \<and>
   (\<exists>out. FeedForward_call example_built (constant_values 1) True (\<lambda>i. even i)
             \<lparr>shape = [1, 2], elems = [1, 2]\<rparr> = Inr out \<and>
      shape out = [1, 2])"
proof -
  have b: "FeedForward_build example_FeedForward ([PyNone] @ [PyInt 2]) = Inr example_built"
    using example_built_build by simp
  have a: "\<forall>g y. activation example_FeedForward = Some g \<longrightarrow>
      shape (fn_apply g y) = shape y"
    by (simp add: example_FeedForward_fields)
  show ?thesis
    using FeedForward_shape_preserved [OF b _ _ a,
        of "\<lparr>shape = [1, 2], elems = [1, 2]\<rparr>" "[PyNone, PyInt 2]" "constant_values 1" True
          "\<lambda>i. even i"]
    by simp
qed

theorem FeedForward_no_dropout_deterministic_witness:
  "dropout_layer example_built = None \<and>
   FeedForward_call example_built (constant_values 1) True (\<lambda>i. even i)
       \<lparr>shape = [1, 2], elems = [1, 2]\<rparr> =
     FeedForward_call example_built (constant_values 1) False (\<lambda>i. True)
       \<lparr>shape = [1, 2], elems = [1, 2]\<rparr>"
  using FeedForward_no_dropout_deterministic [OF example_FeedForward_init [simplified]
      example_built_build]
  by simp

section \<open>gelu\<close>

text \<open>
  C10.  \<open>gelu x\<close> is \<open>0.5 * x * (1 + tanh (sqrt (2 / pi) * (x + 0.044715 * x ^ 3)))\<close>, over
  the reals; \<open>gelu 0 = 0\<close>; the argument of \<open>tanh\<close> is odd in \<open>x\<close>, hence so is the \<open>tanh\<close>
  term, and \<open>gelu x - gelu (- x) = x\<close>.
\<close>

theorem gelu_formula:
  "gelu x = 0.5 * x * (1 + tanh (sqrt (2 / pi) * (x + 0.044715 * x ^ 3))) \<and>
   gelu 0 = 0 \<and>
   sqrt (2 / pi) * (- x + 0.044715 * (- x) ^ 3) = - (sqrt (2 / pi) * (x + 0.044715 * x ^ 3)) \<and>
   tanh (sqrt (2 / pi) * (- x + 0.044715 * (- x) ^ 3)) =
     - tanh (sqrt (2 / pi) * (x + 0.044715 * x ^ 3)) \<and>
   gelu (- x) = 0.5 * (- x) * (1 - tanh (sqrt (2 / pi) * (x + 0.044715 * x ^ 3))) \<and>
   gelu x - gelu (- x) = x"
proof -
  have arg: "sqrt (2 / pi) * (- x + 0.044715 * (- x) ^ 3) =
      - (sqrt (2 / pi) * (x + 0.044715 * x ^ 3))"
    by (simp add: algebra_simps)
  have t: "tanh (sqrt (2 / pi) * (- x + 0.044715 * (- x) ^ 3)) =
      - tanh (sqrt (2 / pi) * (x + 0.044715 * x ^ 3))"
    by (simp only: arg tanh_minus)
  have e: "gelu y = 0.5 * y * (1 + tanh (sqrt (2 / pi) * (y + 0.044715 * y ^ 3)))" for y
    by (simp add: gelu_def)
  have m: "gelu (- x) = 0.5 * (- x) * (1 - tanh (sqrt (2 / pi) * (x + 0.044715 * x ^ 3)))"
    by (simp only: e [of "- x"] t) simp
  have d: "gelu x - gelu (- x) = x"
    by (simp only: m e [of x]) (simp add: algebra_simps)
  have z: "gelu 0 = 0"
    by (simp add: gelu_def)
  from e [of x] z arg t m d show ?thesis by blast
qed

section \<open>Configuration round trip\<close>

lemma restrict_own:
  "(b ++ [''mode'' \<mapsto> m, ''output_dim'' \<mapsto> d]) |` (- set SineCosinePositionEmbedding_params) =
   b |` (- {''mode'', ''output_dim''})"
  by (rule ext) (simp add: restrict_map_def map_add_def SineCosinePositionEmbedding_params_def)

lemma SineCosinePositionEmbedding_config_round_trip:
  assumes init: "SineCosinePositionEmbedding_init L mode od kw = Inr self"
    and base: "L kw = Inr base" "base ''mode'' = None" "base ''output_dim'' = None"
    and base': "L (G self |` (- {''mode'', ''output_dim''})) = Inr base'"
      "base' ''mode'' = None" "base' ''output_dim'' = None"
    and G: "G ([''supports_masking'' \<mapsto> PyBool True, ''mode'' \<mapsto> PyStr mode,
               ''output_dim'' \<mapsto> output_dim_val od] ++ base') = G self"
  shows "\<exists>cfg self'. SineCosinePositionEmbedding_get_config G self = Inr cfg \<and>
           cfg ''mode'' = Some (PyStr mode) \<and> cfg ''output_dim'' = Some (output_dim_val od) \<and>
           SineCosinePositionEmbedding_from_config L cfg = Inr self' \<and>
           SineCosinePositionEmbedding_get_config G self' = Inr cfg \<and>
           self' ''mode'' = self ''mode'' \<and> self' ''output_dim'' = self ''output_dim''"
proof -
  note a = init_attrs [OF init base(1)]
  have m: "self ''mode'' = Some (PyStr mode)" using a(1) base(2) .
  have d: "self ''output_dim'' = Some (output_dim_val od)" using a(2) base(3) .
  define cfg where "cfg = G self ++ [''mode'' \<mapsto> PyStr mode, ''output_dim'' \<mapsto> output_dim_val od]"
  have g: "SineCosinePositionEmbedding_get_config G self = Inr cfg"
    using m d by (simp add: SineCosinePositionEmbedding_get_config_def getattr_def cfg_def)
  have c: "cfg ''mode'' = Some (PyStr mode)" "cfg ''output_dim'' = Some (output_dim_val od)"
    by (simp_all add: cfg_def)
  have kw: "cfg |` (- set SineCosinePositionEmbedding_params) = G self |` (- {''mode'', ''output_dim''})"
    unfolding cfg_def by (rule restrict_own)
  define self' where "self' = [''supports_masking'' \<mapsto> PyBool True, ''mode'' \<mapsto> PyStr mode,
               ''output_dim'' \<mapsto> output_dim_val od] ++ base'"
  from init_Inr [OF init] have valid: "mode \<in> {''expand'', ''add'', ''concat''}"
    "mode \<noteq> ''add'' \<longrightarrow> (\<exists>n. od = Some n \<and> n mod 2 = 0)" by auto
  have i': "SineCosinePositionEmbedding_init L mode od (G self |` (- {''mode'', ''output_dim''})) = Inr self'"
    using valid base'(1)
    by (auto simp: SineCosinePositionEmbedding_init_def self'_def)
  have od: "as_optional_int (output_dim_val od) = Inr od"
    by (cases od) (simp_all add: as_optional_int_def output_dim_val_def)
  have f: "SineCosinePositionEmbedding_from_config L cfg = Inr self'"
    using c kw i' od
    by (simp add: SineCosinePositionEmbedding_from_config_def kwarg_def as_str_def)
  have m': "self' ''mode'' = Some (PyStr mode)" "self' ''output_dim'' = Some (output_dim_val od)"
    using base'(2,3) by (simp_all add: self'_def map_add_def)
  have g': "SineCosinePositionEmbedding_get_config G self' = Inr cfg"
    using m' G by (simp add: SineCosinePositionEmbedding_get_config_def getattr_def cfg_def self'_def)
  show ?thesis using g c f g' m' m d by simp
qed

lemma FeedForward_get_config_lookup:
  "FeedForward_get_config K l ''units'' = Some (PyInt (units l))"
  "FeedForward_get_config K l ''activation'' = Some (activations_serialize K (activation l))"
  "FeedForward_get_config K l ''kernel_initializer'' =
     Some (initializers_serialize K (kernel_initializer l))"
  "FeedForward_get_config K l ''kernel_regularizer'' =
     Some (regularizers_serialize K (kernel_regularizer l))"
  "FeedForward_get_config K l ''kernel_constraint'' =
     Some (constraints_serialize K (kernel_constraint l))"
  "FeedForward_get_config K l ''bias_initializer'' =
     Some (initializers_serialize K (bias_initializer l))"
  "FeedForward_get_config K l ''bias_regularizer'' =
     Some (regularizers_serialize K (bias_regularizer l))"
  "FeedForward_get_config K l ''bias_constraint'' =
     Some (constraints_serialize K (bias_constraint l))"
  "FeedForward_get_config K l ''use_bias'' = Some (PyBool (use_bias l))"
  "FeedForward_get_config K l ''dropout_rate'' = Some (PyFloat (dropout_rate l))"
  by (simp_all add: FeedForward_get_config_def)

lemma FeedForward_get_config_kwargs:
  "FeedForward_get_config K l |` (- set FeedForward_params) =
   Layer_get_config K (layer_attrs l) |` (- set FeedForward_params)"
  by (rule ext)
    (simp add: FeedForward_get_config_def FeedForward_params_def restrict_map_def map_add_def)

lemma FeedForward_get_config_cong:
  assumes "Layer_get_config K (layer_attrs l') = Layer_get_config K (layer_attrs l)"
    and "units l' = units l" "activation l' = activation l"
    and "kernel_initializer l' = kernel_initializer l"
    and "kernel_regularizer l' = kernel_regularizer l"
    and "kernel_constraint l' = kernel_constraint l"
    and "bias_initializer l' = bias_initializer l"
    and "bias_regularizer l' = bias_regularizer l"
    and "bias_constraint l' = bias_constraint l"
    and "use_bias l' = use_bias l" "dropout_rate l' = dropout_rate l"
  shows "FeedForward_get_config K l' = FeedForward_get_config K l"
  using assms by (simp add: FeedForward_get_config_def)

lemma FeedForward_config_keys:
  "set FeedForward_params \<subseteq> dom (FeedForward_get_config K l)"
  by (simp add: FeedForward_params_def dom_def FeedForward_get_config_lookup)

text \<open>
  Reconstruction from an exported mapping is the constructor on the exported values: every
  parameter finds its entry, none falls back to its default.
\<close>

lemma FeedForward_from_config_get_config:
  "FeedForward_from_config K (FeedForward_get_config K l) =
     FeedForward_init K (units l)
       (Identifier (activations_serialize K (activation l)))
       (initializers_serialize K (kernel_initializer l))
       (regularizers_serialize K (kernel_regularizer l))
       (constraints_serialize K (kernel_constraint l))
       (initializers_serialize K (bias_initializer l))
       (regularizers_serialize K (bias_regularizer l))
       (constraints_serialize K (bias_constraint l))
       (use_bias l) (dropout_rate l)
       (Layer_get_config K (layer_attrs l) |` (- set FeedForward_params))"
  by (simp add: FeedForward_from_config_def FeedForward_get_config_lookup
      FeedForward_get_config_kwargs kwarg_def as_int_def as_bool_def as_float_def)

lemma FeedForward_rebuilt_fields:
  assumes "FeedForward_from_config K (FeedForward_get_config K l) = Inr l'"
  shows "units l' = units l \<and> use_bias l' = use_bias l \<and> dropout_rate l' = dropout_rate l \<and>
     activations_get K (Identifier (activations_serialize K (activation l))) =
       Inr (activation l') \<and>
     initializers_get K (initializers_serialize K (kernel_initializer l)) =
       Inr (kernel_initializer l') \<and>
     regularizers_get K (regularizers_serialize K (kernel_regularizer l)) =
       Inr (kernel_regularizer l') \<and>
     constraints_get K (constraints_serialize K (kernel_constraint l)) =
       Inr (kernel_constraint l') \<and>
     initializers_get K (initializers_serialize K (bias_initializer l)) =
       Inr (bias_initializer l') \<and>
     regularizers_get K (regularizers_serialize K (bias_regularizer l)) =
       Inr (bias_regularizer l') \<and>
     constraints_get K (constraints_serialize K (bias_constraint l)) =
       Inr (bias_constraint l')"
  using FeedForward_init_Inr [OF assms [unfolded FeedForward_from_config_get_config]]
  by auto

lemma FeedForward_config_round_trip:
  assumes R: "resolves_back K l"
    and B: "Layer_init K (Layer_get_config K (layer_attrs l) |` (- set FeedForward_params)) = Inr b'"
      "Layer_get_config K b' = Layer_get_config K (layer_attrs l)"
  shows "\<exists>l'. FeedForward_from_config K (FeedForward_get_config K l) = Inr l' \<and>
           FeedForward_get_config K l' = FeedForward_get_config K l \<and>
           units l' = units l \<and> activation l' = activation l \<and>
           kernel_initializer l' = kernel_initializer l \<and>
           kernel_regularizer l' = kernel_regularizer l \<and>
           kernel_constraint l' = kernel_constraint l \<and>
           bias_initializer l' = bias_initializer l \<and>
           bias_regularizer l' = bias_regularizer l \<and>
           bias_constraint l' = bias_constraint l \<and>
           use_bias l' = use_bias l \<and> dropout_rate l' = dropout_rate l"
proof -
  define l' where "l' =
     \<lparr>layer_attrs = b', supports_masking = True, units = units l,
      activation = activation l,
      kernel_initializer = kernel_initializer l, kernel_regularizer = kernel_regularizer l,
      kernel_constraint = kernel_constraint l, bias_initializer = bias_initializer l,
      bias_regularizer = bias_regularizer l, bias_constraint = bias_constraint l,
      use_bias = use_bias l, dropout_rate = dropout_rate l,
      W1 = None, W2 = None, b1 = None, b2 = None, dropout_layer = None, built = False\<rparr>"
  have fc: "FeedForward_from_config K (FeedForward_get_config K l) = Inr l'"
    using R B(1)
    by (simp add: FeedForward_from_config_get_config FeedForward_init_def resolves_back_def
        l'_def)
  have g: "FeedForward_get_config K l' = FeedForward_get_config K l"
    by (rule FeedForward_get_config_cong) (simp_all add: l'_def B(2))
  show ?thesis using fc g by (auto simp: l'_def)
qed

text \<open>
  A callable activation is exported as its name.  Where the host resolves that name to
  another function, or to none, the rebuilt layer has that activation and not the
  original's.
\<close>

lemma callable_activation_replaced:
  assumes "activation l = Some f"
    and "activations_get K (Identifier (activations_serialize K (Some f))) = Inr g"
    and "g \<noteq> Some f"
    and "FeedForward_from_config K (FeedForward_get_config K l) = Inr l'"
  shows "activation l' = g \<and> activation l' \<noteq> activation l"
  using FeedForward_rebuilt_fields [OF assms(4)] assms(1,2,3) by auto

text \<open>
  C9 (as amended).  \<open>get_config\<close> of either layer returns a flat mapping with an entry for
  every constructor parameter, the host objects in serialized form.  A \<open>FeedForward\<close>
  layer rebuilt from its mapping always has the original's \<open>units\<close>, \<open>use_bias\<close> and
  \<open>dropout_rate\<close>, and for each of its seven registry objects what the host resolves the
  serialized form to.  Where the host resolves each serialized form back to the original
  object, and rebuilds its base layer from its own part of the mapping, reconstruction
  succeeds and gives a layer with the same configuration fields and the same export.
  A \<open>SineCosinePositionEmbedding\<close> always round-trips, the host rebuilding its base layer
  and not using the attribute names \<open>mode\<close> and \<open>output_dim\<close>.
\<close>

theorem config_round_trip:
  "set FeedForward_params \<subseteq> dom (FeedForward_get_config K l) \<and>
   (FeedForward_from_config K (FeedForward_get_config K l) = Inr r \<longrightarrow>
      units r = units l \<and> use_bias r = use_bias l \<and> dropout_rate r = dropout_rate l \<and>
      activations_get K (Identifier (activations_serialize K (activation l))) =
        Inr (activation r) \<and>
      initializers_get K (initializers_serialize K (kernel_initializer l)) =
        Inr (kernel_initializer r) \<and>
      regularizers_get K (regularizers_serialize K (kernel_regularizer l)) =
        Inr (kernel_regularizer r) \<and>
      constraints_get K (constraints_serialize K (kernel_constraint l)) =
        Inr (kernel_constraint r) \<and>
      initializers_get K (initializers_serialize K (bias_initializer l)) =
        Inr (bias_initializer r) \<and>
      regularizers_get K (regularizers_serialize K (bias_regularizer l)) =
        Inr (bias_regularizer r) \<and>
      constraints_get K (constraints_serialize K (bias_constraint l)) =
        Inr (bias_constraint r)) \<and>
   (resolves_back K l \<and>
    Layer_init K (Layer_get_config K (layer_attrs l) |` (- set FeedForward_params)) = Inr b' \<and>
    Layer_get_config K b' = Layer_get_config K (layer_attrs l) \<longrightarrow>
      (\<exists>l'. FeedForward_from_config K (FeedForward_get_config K l) = Inr l' \<and>
         FeedForward_get_config K l' = FeedForward_get_config K l \<and>
         units l' = units l \<and> activation l' = activation l \<and>
         kernel_initializer l' = kernel_initializer l \<and>
         kernel_regularizer l' = kernel_regularizer l \<and>
         kernel_constraint l' = kernel_constraint l \<and>
         bias_initializer l' = bias_initializer l \<and>
         bias_regularizer l' = bias_regularizer l \<and>
         bias_constraint l' = bias_constraint l \<and>
         use_bias l' = use_bias l \<and> dropout_rate l' = dropout_rate l)) \<and>
   (SineCosinePositionEmbedding_init (Layer_init K) mode od kw2 = Inr self \<and>
    Layer_init K kw2 = Inr base \<and> base ''mode'' = None \<and> base ''output_dim'' = None \<and>
    Layer_init K (Layer_get_config K self |` (- {''mode'', ''output_dim''})) = Inr base' \<and>
    base' ''mode'' = None \<and> base' ''output_dim'' = None \<and>
    Layer_get_config K ([''supports_masking'' \<mapsto> PyBool True, ''mode'' \<mapsto> PyStr mode,
       ''output_dim'' \<mapsto> output_dim_val od] ++ base') = Layer_get_config K self \<longrightarrow>
      (\<exists>cfg self'. SineCosinePositionEmbedding_get_config (Layer_get_config K) self = Inr cfg \<and>
         cfg ''mode'' = Some (PyStr mode) \<and> cfg ''output_dim'' = Some (output_dim_val od) \<and>
         SineCosinePositionEmbedding_from_config (Layer_init K) cfg = Inr self' \<and>
         SineCosinePositionEmbedding_get_config (Layer_get_config K) self' = Inr cfg \<and>
         self' ''mode'' = self ''mode'' \<and> self' ''output_dim'' = self ''output_dim''))"
proof (intro conjI impI)
  show "set FeedForward_params \<subseteq> dom (FeedForward_get_config K l)"
    by (rule FeedForward_config_keys)
next
  assume "FeedForward_from_config K (FeedForward_get_config K l) = Inr r"
  from FeedForward_rebuilt_fields [OF this]
  show "units r = units l" "use_bias r = use_bias l" "dropout_rate r = dropout_rate l"
    "activations_get K (Identifier (activations_serialize K (activation l))) =
        Inr (activation r)"
    "initializers_get K (initializers_serialize K (kernel_initializer l)) =
        Inr (kernel_initializer r)"
    "regularizers_get K (regularizers_serialize K (kernel_regularizer l)) =
        Inr (kernel_regularizer r)"
    "constraints_get K (constraints_serialize K (kernel_constraint l)) =
        Inr (kernel_constraint r)"
    "initializers_get K (initializers_serialize K (bias_initializer l)) =
        Inr (bias_initializer r)"
    "regularizers_get K (regularizers_serialize K (bias_regularizer l)) =
        Inr (bias_regularizer r)"
    "constraints_get K (constraints_serialize K (bias_constraint l)) =
        Inr (bias_constraint r)"
    by simp_all
next
  assume h: "resolves_back K l \<and>
    Layer_init K (Layer_get_config K (layer_attrs l) |` (- set FeedForward_params)) = Inr b' \<and>
    Layer_get_config K b' = Layer_get_config K (layer_attrs l)"
  then show "\<exists>l'. FeedForward_from_config K (FeedForward_get_config K l) = Inr l' \<and>
         FeedForward_get_config K l' = FeedForward_get_config K l \<and>
         units l' = units l \<and> activation l' = activation l \<and>
         kernel_initializer l' = kernel_initializer l \<and>
         kernel_regularizer l' = kernel_regularizer l \<and>
         kernel_constraint l' = kernel_constraint l \<and>
         bias_initializer l' = bias_initializer l \<and>
         bias_regularizer l' = bias_regularizer l \<and>
         bias_constraint l' = bias_constraint l \<and>
         use_bias l' = use_bias l \<and> dropout_rate l' = dropout_rate l"
    by (intro FeedForward_config_round_trip [of K l b']) simp_all
next
  assume h: "SineCosinePositionEmbedding_init (Layer_init K) mode od kw2 = Inr self \<and>
    Layer_init K kw2 = Inr base \<and> base ''mode'' = None \<and> base ''output_dim'' = None \<and>
    Layer_init K (Layer_get_config K self |` (- {''mode'', ''output_dim''})) = Inr base' \<and>
    base' ''mode'' = None \<and> base' ''output_dim'' = None \<and>
    Layer_get_config K ([''supports_masking'' \<mapsto> PyBool True, ''mode'' \<mapsto> PyStr mode,
       ''output_dim'' \<mapsto> output_dim_val od] ++ base') = Layer_get_config K self"
  then show "\<exists>cfg self'. SineCosinePositionEmbedding_get_config (Layer_get_config K) self = Inr cfg \<and>
         cfg ''mode'' = Some (PyStr mode) \<and> cfg ''output_dim'' = Some (output_dim_val od) \<and>
         SineCosinePositionEmbedding_from_config (Layer_init K) cfg = Inr self' \<and>
         SineCosinePositionEmbedding_get_config (Layer_get_config K) self' = Inr cfg \<and>
         self' ''mode'' = self ''mode'' \<and> self' ''output_dim'' = self ''output_dim''"
    by (intro SineCosinePositionEmbedding_config_round_trip
        [of "Layer_init K" mode od kw2 self base "Layer_get_config K" base']) simp_all
qed

lemma minimal_Layer_round_trip:
  "\<not> List.member names ''name'' \<Longrightarrow>
   minimal_Layer_init (minimal_Layer_get_config attrs |` (- set names)) =
     Inr (minimal_Layer_get_config attrs)"
  by (simp add: minimal_Layer_init_def minimal_Layer_get_config_def)

lemma minimal_Layer_get_config_idem:
  "minimal_Layer_get_config (own ++ minimal_Layer_get_config attrs) = minimal_Layer_get_config attrs"
  by (simp add: minimal_Layer_get_config_def)

lemma example_position_init:
  "SineCosinePositionEmbedding_init minimal_Layer_init ''concat'' (Some 8) no_kwargs =
     Inr example_position"
  by (simp add: SineCosinePositionEmbedding_init_def minimal_Layer_init_def output_dim_val_def
      example_position_def)

lemma example_custom_eq:
  "example_custom =
     \<lparr>layer_attrs = [''name'' \<mapsto> PyStr ''ffn''], supports_masking = True, units = 5,
      activation = Some linear_fn,
      kernel_initializer = PyStr ''he_normal'', kernel_regularizer = PyStr ''l2'',
      kernel_constraint = PyStr ''max_norm'', bias_initializer = PyStr ''ones'',
      bias_regularizer = PyStr ''l1'', bias_constraint = PyStr ''non_neg'',
      use_bias = False, dropout_rate = 1 / 4,
      W1 = None, W2 = None, b1 = None, b2 = None, dropout_layer = None, built = False\<rparr>"
  by (simp add: example_custom_def FeedForward_init_def minimal_Layer_init_def
      minimal_activations_get_def custom_kwargs_def)

lemma example_custom_resolves_back: "resolves_back minimal_keras example_custom"
  by (simp add: resolves_back_def example_custom_eq minimal_activations_get_def
      minimal_activations_serialize_def linear_fn_def)

lemma example_custom_rebuilt:
  "FeedForward_from_config minimal_keras (FeedForward_get_config minimal_keras example_custom) =
     Inr example_custom"
  by (simp add: FeedForward_from_config_get_config FeedForward_init_def example_custom_eq
      minimal_activations_get_def minimal_activations_serialize_def linear_fn_def
      minimal_Layer_init_def minimal_Layer_get_config_def FeedForward_params_def)

theorem config_round_trip_witness:
  "FeedForward_from_config minimal_keras (FeedForward_get_config minimal_keras example_custom) =
     Inr example_custom \<and>
   minimal_activations_get (Identifier (PyStr ''linear'')) = Inr (activation example_custom) \<and>
   (\<exists>l'. FeedForward_from_config minimal_keras
            (FeedForward_get_config minimal_keras example_custom) = Inr l' \<and>
      FeedForward_get_config minimal_keras l' =
        FeedForward_get_config minimal_keras example_custom \<and>
      units l' = 5 \<and> activation l' = Some linear_fn \<and>
      kernel_initializer l' = PyStr ''he_normal'' \<and> kernel_regularizer l' = PyStr ''l2'' \<and>
      kernel_constraint l' = PyStr ''max_norm'' \<and> bias_initializer l' = PyStr ''ones'' \<and>
      bias_regularizer l' = PyStr ''l1'' \<and> bias_constraint l' = PyStr ''non_neg'' \<and>
      \<not> use_bias l' \<and> dropout_rate l' = 1 / 4) \<and>
   FeedForward_get_config minimal_keras example_custom ''name'' = Some (PyStr ''ffn'') \<and>
   (\<exists>cfg self'.
      SineCosinePositionEmbedding_get_config minimal_Layer_get_config example_position = Inr cfg \<and>
      cfg ''mode'' = Some (PyStr ''concat'') \<and> cfg ''output_dim'' = Some (PyInt 8) \<and>
      SineCosinePositionEmbedding_from_config minimal_Layer_init cfg = Inr self' \<and>
      SineCosinePositionEmbedding_get_config minimal_Layer_get_config self' = Inr cfg)"
proof -
  have n: "\<not> List.member FeedForward_params ''name''"
    by (simp add: FeedForward_params_def)
  have f3: "Layer_init minimal_keras
      (Layer_get_config minimal_keras (layer_attrs example_custom) |`
        (- set FeedForward_params)) =
      Inr (minimal_Layer_get_config (layer_attrs example_custom))"
    using minimal_Layer_round_trip [OF n] by simp
  have f4: "Layer_get_config minimal_keras
        (minimal_Layer_get_config (layer_attrs example_custom)) =
      Layer_get_config minimal_keras (layer_attrs example_custom)"
    using minimal_Layer_get_config_idem [of Map.empty] by simp
  have nm: "FeedForward_get_config minimal_keras example_custom ''name'' = Some (PyStr ''ffn'')"
    by (simp add: FeedForward_get_config_def example_custom_eq minimal_Layer_get_config_def
        map_add_def)
  have p1: "SineCosinePositionEmbedding_init (Layer_init minimal_keras) ''concat'' (Some 8)
      no_kwargs = Inr example_position"
    using example_position_init by simp
  have p2: "Layer_init minimal_keras no_kwargs = Inr [''name'' \<mapsto> PyStr ''layer'']"
    by (simp add: minimal_Layer_init_def)
  have p5: "Layer_init minimal_keras
      (Layer_get_config minimal_keras example_position |` (- {''mode'', ''output_dim''})) =
      Inr [''name'' \<mapsto> PyStr ''layer'']"
    by (simp add: minimal_Layer_init_def minimal_Layer_get_config_def example_position_def)
  have p8: "Layer_get_config minimal_keras
      ([''supports_masking'' \<mapsto> PyBool True, ''mode'' \<mapsto> PyStr ''concat'',
        ''output_dim'' \<mapsto> output_dim_val (Some 8)] ++ [''name'' \<mapsto> PyStr ''layer'']) =
      Layer_get_config minimal_keras example_position"
    by (simp add: minimal_Layer_get_config_def example_position_def)
  have fields: "units example_custom = 5" "activation example_custom = Some linear_fn"
    "kernel_initializer example_custom = PyStr ''he_normal''"
    "kernel_regularizer example_custom = PyStr ''l2''"
    "kernel_constraint example_custom = PyStr ''max_norm''"
    "bias_initializer example_custom = PyStr ''ones''"
    "bias_regularizer example_custom = PyStr ''l1''"
    "bias_constraint example_custom = PyStr ''non_neg''"
    "\<not> use_bias example_custom" "dropout_rate example_custom = 1 / 4"
    by (simp_all add: example_custom_eq)
  show ?thesis
    using config_round_trip [of minimal_keras example_custom example_custom
        "minimal_Layer_get_config (layer_attrs example_custom)"
        "''concat''" "Some 8" no_kwargs example_position "[''name'' \<mapsto> PyStr ''layer'']"
        "[''name'' \<mapsto> PyStr ''layer'']"]
      example_custom_rebuilt example_custom_resolves_back f3 f4 nm p1 p2 p5 p8
    by (simp add: fields output_dim_val_def minimal_activations_serialize_def linear_fn_def)
      blast
qed

lemma gelu_layer_eq:
  "gelu_layer =
     \<lparr>layer_attrs = [''name'' \<mapsto> PyStr ''layer''], supports_masking = True, units = 3,
      activation = Some gelu_fn,
      kernel_initializer = PyStr ''glorot_normal'', kernel_regularizer = PyNone,
      kernel_constraint = PyNone, bias_initializer = PyStr ''zeros'',
      bias_regularizer = PyNone, bias_constraint = PyNone,
      use_bias = True, dropout_rate = 0,
      W1 = None, W2 = None, b1 = None, b2 = None, dropout_layer = None, built = False\<rparr>"
  by (simp add: gelu_layer_def FeedForward_init_def minimal_Layer_init_def
      minimal_activations_get_def)

text \<open>
  The claim as stated, a round trip for every constructed \<open>FeedForward\<close>, fails on a layer
  given the module's \<open>gelu\<close> as its activation: the mapping holds the name \<open>gelu\<close>, which
  the minimal host does not know, and reconstruction raises.
\<close>

theorem FeedForward_gelu_not_restored:
  "FeedForward_init minimal_keras 3 (Callable gelu_fn) (PyStr ''glorot_normal'') PyNone PyNone
     (PyStr ''zeros'') PyNone PyNone True 0 no_kwargs = Inr gelu_layer \<and>
   activation gelu_layer = Some gelu_fn \<and>
   FeedForward_get_config minimal_keras gelu_layer ''activation'' = Some (PyStr ''gelu'') \<and>
   FeedForward_from_config minimal_keras (FeedForward_get_config minimal_keras gelu_layer) =
     Inl ValueError"
proof -
  have i: "FeedForward_init minimal_keras 3 (Callable gelu_fn) (PyStr ''glorot_normal'') PyNone
      PyNone (PyStr ''zeros'') PyNone PyNone True 0 no_kwargs = Inr gelu_layer"
    by (simp add: gelu_layer_eq FeedForward_init_def minimal_Layer_init_def
        minimal_activations_get_def)
  have a: "activation gelu_layer = Some gelu_fn"
    by (simp add: gelu_layer_eq)
  have c: "FeedForward_get_config minimal_keras gelu_layer ''activation'' = Some (PyStr ''gelu'')"
    by (simp add: FeedForward_get_config_lookup a minimal_activations_serialize_def gelu_fn_def)
  have f: "FeedForward_from_config minimal_keras (FeedForward_get_config minimal_keras gelu_layer) =
      Inl ValueError"
    by (simp add: FeedForward_from_config_get_config FeedForward_init_def a
        minimal_activations_serialize_def gelu_fn_def minimal_activations_get_def
        minimal_Layer_init_def)
  show ?thesis using i a c f by simp
qed

end
